theory Spec2Isabelle
  imports Complex_Main
begin

section \<open>Numeric conventions\<close>

text \<open>
  The Python sources compute with IEEE doubles. The embedding idealises a finite
  double as a \<^typ>\<open>real\<close>, so every identity below is one of exact real arithmetic and
  says nothing about rounding. A value that may be NaN is an \<open>npfloat\<close>: \<open>None\<close> is
  NaN, \<open>Some x\<close> the number \<open>x\<close>. NaN arises where the sources take \<open>np.sqrt\<close> of a
  negative number or divide zero by zero; it propagates through arithmetic, and every
  comparison with it is false.
\<close>

type_synonym npfloat = "real option"

definition np_sqrt :: "real \<Rightarrow> npfloat" where
  "np_sqrt x = (if x < 0 then None else Some (sqrt x))"

definition nlift2 :: "(real \<Rightarrow> real \<Rightarrow> real) \<Rightarrow> npfloat \<Rightarrow> npfloat \<Rightarrow> npfloat" where
  "nlift2 f a b = (case a of None \<Rightarrow> None | Some x \<Rightarrow> (case b of None \<Rightarrow> None | Some y \<Rightarrow> Some (f x y)))"

definition nan_less :: "npfloat \<Rightarrow> npfloat \<Rightarrow> bool" where
  "nan_less a b = (case a of None \<Rightarrow> False | Some x \<Rightarrow> (case b of None \<Rightarrow> False | Some y \<Rightarrow> x < y))"

text \<open>\<open>np.arange(start, stop, step)\<close>: the values \<open>start + i * step\<close> for
  \<open>i < ceil((stop - start) / step)\<close>. A zero step raises in numpy; call sites whose
  step is an input guard it themselves.\<close>

definition np_arange :: "real \<Rightarrow> real \<Rightarrow> real \<Rightarrow> real list" where
  "np_arange start stop step =
     map (\<lambda>i. start + real i * step) [0..<nat \<lceil>(stop - start) / step\<rceil>]"

text \<open>\<open>np.argmax\<close> scans from the left and keeps the first position of the largest
  value. On an array holding NaN it returns the position of the first NaN. (numpy raises
  on an empty array; no call site of the sources passes one.)\<close>

fun argmax_scan :: "real list \<Rightarrow> nat \<Rightarrow> nat \<Rightarrow> real \<Rightarrow> nat" where
  "argmax_scan [] i best_i best = best_i"
| "argmax_scan (x # xs) i best_i best =
     (if best < x then argmax_scan xs (Suc i) i x else argmax_scan xs (Suc i) best_i best)"

definition np_argmax :: "real list \<Rightarrow> nat" where
  "np_argmax xs = (case xs of [] \<Rightarrow> 0 | x # rest \<Rightarrow> argmax_scan rest 1 0 x)"

definition nan_argmax :: "npfloat list \<Rightarrow> nat" where
  "nan_argmax xs =
     (if None \<in> set xs then length (takeWhile (\<lambda>x. x \<noteq> None) xs)
      else np_argmax (map the xs))"

section \<open>Dose-response model\<close>

text \<open>\<open>BED_calc0(dose, ab, sparing = 1)\<close> of \<open>3D_adaptive_fractionation.py\<close>; call sites
  that rely on the default pass \<open>1\<close> here.\<close>

definition BED_calc0 :: "real \<Rightarrow> real \<Rightarrow> real \<Rightarrow> real" where
  "BED_calc0 dose ab sparing = sparing * dose * (1 + (sparing * dose) / ab)"

text \<open>\<open>BED_calc_matrix(actionspace, ab, sf)\<close>: one row per sparing factor, one column
  per action (\<open>np.outer(sf, actionspace)\<close>).\<close>

definition BED_calc_matrix :: "real list \<Rightarrow> real \<Rightarrow> real list \<Rightarrow> real list list" where
  "BED_calc_matrix actionspace ab sf =
     map (\<lambda>s. map (\<lambda>a. (s * a) * (1 + (s * a) / ab)) actionspace) sf"

datatype py_error = IndexError | ValueError | ZeroDivisionError | UnboundLocalError

definition nan_min :: "npfloat \<Rightarrow> npfloat \<Rightarrow> npfloat" where
  "nan_min a b = nlift2 min a b"

definition nan_sum :: "npfloat list \<Rightarrow> npfloat" where
  "nan_sum xs = foldr (nlift2 (+)) xs (Some 0)"

definition nan_max_list :: "npfloat list \<Rightarrow> npfloat" where
  "nan_max_list xs = (case xs of [] \<Rightarrow> None | x # rest \<Rightarrow> foldl (nlift2 max) x rest)"

definition boolean_index :: "'a list \<Rightarrow> bool list \<Rightarrow> 'a list" where
  "boolean_index xs keep = map fst (filter snd (zip xs keep))"

definition np_mean :: "real list \<Rightarrow> npfloat" where
  "np_mean xs = (if xs = [] then None else Some (sum_list xs / real (length xs)))"

definition np_var :: "real list \<Rightarrow> npfloat" where
  "np_var xs = (case np_mean xs of None \<Rightarrow> None
     | Some m \<Rightarrow> Some (sum_list (map (\<lambda>x. (x - m)\<^sup>2) xs) / real (length xs)))"

definition rint :: "real \<Rightarrow> int" where
  "rint y = (let f = \<lfloor>y\<rfloor>; d = y - of_int f
     in if d < 1 / 2 then f else if 1 / 2 < d then f + 1 else if even f then f else f + 1)"

definition np_round2 :: "real \<Rightarrow> real" where
  "np_round2 x = of_int (rint (x * 100)) / 100"

record scipy =
  truncnorm_cdf :: "real \<Rightarrow> real \<Rightarrow> real \<Rightarrow> real \<Rightarrow> real \<Rightarrow> real"
  grid_interpolator :: "real list \<Rightarrow> real list \<Rightarrow> npfloat list list \<Rightarrow> real \<Rightarrow> real \<Rightarrow> npfloat"

definition get_truncated_normal :: "scipy \<Rightarrow> real \<Rightarrow> real \<Rightarrow> real \<Rightarrow> real \<Rightarrow> (real \<Rightarrow> real)" where
  "get_truncated_normal S mean sd low upp =
     truncnorm_cdf S ((low - mean) / sd) ((upp - mean) / sd) mean sd"

text \<open>
  \<open>probdist(X)\<close> fills \<open>prob[idx]\<close> with \<open>X.cdf(i + 0.004999999999999999999) - X.cdf(i - 0.005)\<close>
  for the 130 points \<open>i\<close> of \<open>np.arange(0.01, 1.31, 0.01)\<close>. The distribution \<open>X\<close> is
  represented by its distribution function. The literal \<open>0.004999999999999999999\<close> is
  closer to \<open>0.005\<close> than two neighbouring doubles are to each other, so Python reads
  both literals as the same double; the embedding writes \<open>0.005\<close> for it.
\<close>

definition probdist :: "(real \<Rightarrow> real) \<Rightarrow> real list" where
  "probdist X = map (\<lambda>i. X (i + 0.005) - X (i - 0.005)) (np_arange 0.01 1.31 0.01)"

text \<open>The spec's words for one bin: the mass of the distribution over the bin of width
  \<open>0.01\<close> centred at the grid point \<open>g\<close>, as a difference of its distribution function.\<close>

definition bin_mass :: "(real \<Rightarrow> real) \<Rightarrow> real \<Rightarrow> real" where
  "bin_mass X g = X (g + 0.01 / 2) - X (g - 0.01 / 2)"

definition var_values :: "real list" where
  "var_values = np_arange 0.00001 0.25 0.00001"

definition likelihood :: "real \<Rightarrow> real \<Rightarrow> real \<Rightarrow> real \<Rightarrow> real \<Rightarrow> real" where
  "likelihood n var alpha beta v =
     v powr (- alpha - 1) / v powr (n / 2) * exp (- beta / v) * exp (- var * n / (2 * v))"

definition std_calc :: "real list \<Rightarrow> real \<Rightarrow> real \<Rightarrow> real" where
  "std_calc measured_data alpha beta =
     (let n = real (length measured_data);
          likelihood_values =
            map (\<lambda>v. map_option (\<lambda>var. likelihood n var alpha beta v) (np_var measured_data))
              var_values
      in sqrt (var_values ! nan_argmax likelihood_values))"

fun argmin_scan :: "real list \<Rightarrow> nat \<Rightarrow> nat \<Rightarrow> real \<Rightarrow> nat" where
  "argmin_scan [] i best_i best = best_i"
| "argmin_scan (x # xs) i best_i best =
     (if x < best then argmin_scan xs (Suc i) i x else argmin_scan xs (Suc i) best_i best)"

definition argfind :: "real list \<Rightarrow> real \<Rightarrow> nat" where
  "argfind searched_list v =
     (case map (\<lambda>x. \<bar>x - v\<bar>) searched_list of [] \<Rightarrow> 0 | k # rest \<Rightarrow> argmin_scan rest 1 0 k)"




definition closed_form_dose :: "real \<Rightarrow> real \<Rightarrow> real \<Rightarrow> npfloat" where
  "closed_form_dose sf ab remaining =
     (if ab = 0 \<or> sf = 0 then None
      else map_option (\<lambda>root. (- sf + root) / (2 * sf\<^sup>2 / ab))
             (np_sqrt (sf\<^sup>2 + 4 * sf\<^sup>2 * remaining / ab)))"

definition final_action ::
  "real \<Rightarrow> real \<Rightarrow> real \<Rightarrow> real \<Rightarrow> real \<Rightarrow> real \<Rightarrow> real \<Rightarrow> npfloat \<times> real" where
  "final_action sf_end BED_OAR BED_tumor abt abn bound_OAR bound_tumor =
     (let penalty = 0;
          best_action_BED = closed_form_dose sf_end abn (bound_OAR - BED_OAR);
          best_action_tumor = closed_form_dose 1 abt (bound_tumor - BED_tumor);
          best_action = nan_min best_action_BED best_action_tumor;
          (best_action, penalty) =
            (if BED_OAR > bound_OAR \<or> BED_tumor > bound_tumor
             then (Some 0, - 100000000000) else (best_action, penalty));
          best_action = (if nan_less best_action (Some 0) then Some 0 else best_action)
      in (best_action, penalty))"

definition terminal_value ::
  "real \<Rightarrow> real \<Rightarrow> real \<Rightarrow> real \<Rightarrow> real \<Rightarrow> real \<Rightarrow> real \<Rightarrow> npfloat" where
  "terminal_value s abt abn bound_OAR bound_tumor tumor_value OAR_value =
     (let underdosepenalty = 10;
          action = final_action s OAR_value tumor_value abt abn bound_OAR bound_tumor;
          best_action = fst action;
          penalty = snd action;
          future_tumor = map_option (\<lambda>a. tumor_value + BED_calc0 a abt 1) best_action;
          end_penalty = map_option (\<lambda>t. min (t - bound_tumor) 0 * underdosepenalty) future_tumor
      in nlift2 (+)
           (nlift2 (-) end_penalty (map_option (\<lambda>a. BED_calc0 a abn s) best_action))
           (Some penalty))"

definition terminal_cell ::
  "real list \<Rightarrow> real \<Rightarrow> real \<Rightarrow> real \<Rightarrow> real \<Rightarrow> real \<Rightarrow> real \<Rightarrow> npfloat list" where
  "terminal_cell sf abt abn bound_OAR bound_tumor tumor_value OAR_value =
     map (\<lambda>s. terminal_value s abt abn bound_OAR bound_tumor tumor_value OAR_value) sf"

definition overdose_clamp :: "real \<Rightarrow> real \<Rightarrow> real \<Rightarrow> real" where
  "overdose_clamp bound upperbound x = (if x > bound then upperbound else x)"

definition future_values_prob :: "npfloat list list list \<Rightarrow> real list \<Rightarrow> npfloat list list" where
  "future_values_prob layer prob =
     map (map (\<lambda>cell. nan_sum (map2 (\<lambda>v p. nlift2 (*) v (Some p)) cell prob))) layer"

record solve_context =
  ctx_fraction :: int
  ctx_BED_OAR :: real
  ctx_BED_tumor :: real
  ctx_sf_end :: real
  ctx_abt :: real
  ctx_abn :: real
  ctx_bound_OAR :: real
  ctx_bound_tumor :: real
  ctx_sf :: "real list"
  ctx_prob :: "real list"
  ctx_BEDT :: "real list"
  ctx_BEDNT :: "real list"
  ctx_OAR_dose :: "real list list"
  ctx_tumor_dose :: "real list"
  ctx_actual_fraction_sf :: nat
  ctx_interpolator :: "real list \<Rightarrow> real list \<Rightarrow> npfloat list list \<Rightarrow> real \<Rightarrow> real \<Rightarrow> npfloat"

definition layer_before :: "'a list \<Rightarrow> nat \<Rightarrow> 'a" where
  "layer_before Values index = (if index = 0 then last Values else Values ! (index - 1))"

definition decision_Vs :: "solve_context \<Rightarrow> npfloat list list list list \<Rightarrow> nat \<Rightarrow> npfloat list" where
  "decision_Vs C Values index =
     (let OAR_row = ctx_OAR_dose C ! ctx_actual_fraction_sf C;
          future_OAR = map (\<lambda>d. overdose_clamp (ctx_bound_OAR C) (ctx_bound_OAR C + 1)
                                  (ctx_BED_OAR C + d)) OAR_row;
          future_tumor = map (\<lambda>d. overdose_clamp (ctx_bound_tumor C) (ctx_bound_tumor C + 1)
                                  (ctx_BED_tumor C + d)) (ctx_tumor_dose C);
          value_interpolation = ctx_interpolator C (ctx_BEDT C) (ctx_BEDNT C)
                                  (future_values_prob (layer_before Values index) (ctx_prob C));
          future_value_actual = map2 value_interpolation future_tumor future_OAR
      in map2 (\<lambda>v d. nlift2 (-) v (Some d)) future_value_actual OAR_row)"

definition interior_cell ::
  "solve_context \<Rightarrow> npfloat list list \<Rightarrow> real \<Rightarrow> real \<Rightarrow> npfloat list" where
  "interior_cell C fvp tumor_value OAR_value =
     (let future_tumor = map (\<lambda>d. overdose_clamp (ctx_bound_tumor C) (ctx_bound_tumor C + 1)
                                  (tumor_value + d)) (ctx_tumor_dose C);
          value_interpolation = ctx_interpolator C (ctx_BEDT C) (ctx_BEDNT C) fvp
      in map (\<lambda>OAR_row.
           let future_OAR = map (\<lambda>d. overdose_clamp (ctx_bound_OAR C) (ctx_bound_OAR C + 1)
                                      (d + OAR_value)) OAR_row;
               future_value = map2 value_interpolation future_tumor future_OAR;
               Vs = map2 (\<lambda>v d. nlift2 (-) v (Some d)) future_value OAR_row
           in nan_max_list Vs) (ctx_OAR_dose C))"

definition table_layer ::
  "solve_context \<Rightarrow> npfloat list list list list \<Rightarrow> nat \<Rightarrow> int \<Rightarrow> npfloat list list list" where
  "table_layer C Values index frac_state =
     (let fvp = future_values_prob (layer_before Values index) (ctx_prob C)
      in map (\<lambda>tumor_value. map (\<lambda>OAR_value.
           if frac_state = 5
           then terminal_cell (ctx_sf C) (ctx_abt C) (ctx_abn C) (ctx_bound_OAR C)
                  (ctx_bound_tumor C) tumor_value OAR_value
           else interior_cell C fvp tumor_value OAR_value) (ctx_BEDNT C)) (ctx_BEDT C))"

definition value_step ::
  "solve_context \<Rightarrow> nat \<times> int \<Rightarrow> npfloat list list list list \<times> npfloat option
     \<Rightarrow> npfloat list list list list \<times> npfloat option" where
  "value_step C it st =
     (let index = fst it; frac_state_plus = snd it;
          Values = fst st; actual_policy = snd st;
          frac_state = frac_state_plus - 1
      in if frac_state = 1
         then (Values, Some (Some (real (nan_argmax (decision_Vs C Values index)))))
         else if frac_state = ctx_fraction C
         then (if ctx_fraction C \<noteq> 5
               then (Values, Some (Some (real (nan_argmax (decision_Vs C Values index)))))
               else (Values,
                     Some (map_option (\<lambda>a. a * 10)
                       (fst (final_action (ctx_sf_end C) (ctx_BED_OAR C) (ctx_BED_tumor C)
                          (ctx_abt C) (ctx_abn C) (ctx_bound_OAR C) (ctx_bound_tumor C))))))
         else (Values[index := table_layer C Values index frac_state], actual_policy))"

fun value_loop ::
  "solve_context \<Rightarrow> (nat \<times> int) list \<Rightarrow> npfloat list list list list \<times> npfloat option
     \<Rightarrow> npfloat list list list list \<times> npfloat option" where
  "value_loop C [] st = st"
| "value_loop C (it # rest) st = value_loop C rest (value_step C it st)"

record eval_result =
  r_physical_dose :: npfloat
  r_accumulated_tumor_dose :: npfloat
  r_accumulated_OAR_dose :: npfloat
  r_tumor_dose :: npfloat
  r_OAR_dose :: npfloat

text \<open>Lines 222 to 228 of \<open>value_eval\<close>: the belief about the sparing factor.\<close>

definition belief_cdf ::
  "scipy \<Rightarrow> real list \<Rightarrow> real \<Rightarrow> real \<Rightarrow> int \<Rightarrow> real \<Rightarrow> real \<Rightarrow> (real \<Rightarrow> real)" where
  "belief_cdf S sparing_factors alpha beta fixed_prob fixed_mean fixed_std =
     (let mean = (if fixed_prob = 1 then fixed_mean
                  else sum_list sparing_factors / real (length sparing_factors));
          standard_deviation = (if fixed_prob = 1 then fixed_std
                                else std_calc sparing_factors alpha beta)
      in get_truncated_normal S mean standard_deviation 0 1.3)"

text \<open>Lines 229 to 232: the bins that are kept, and their probabilities.\<close>

definition sparing_factor_bins :: "(real \<Rightarrow> real) \<Rightarrow> real list \<times> real list" where
  "sparing_factor_bins X =
     (let prob = probdist X;
          sf = np_arange 0.01 1.31 0.01;
          sf = boolean_index sf (map (\<lambda>p. p > 0.00001) prob);
          prob = boolean_index prob (map (\<lambda>p. p > 0.00001) prob)
      in (sf, prob))"

definition value_eval ::
  "scipy \<Rightarrow> int \<Rightarrow> real \<Rightarrow> real \<Rightarrow> real list \<Rightarrow> real \<Rightarrow> real \<Rightarrow> real \<Rightarrow> real \<Rightarrow> real \<Rightarrow> real
     \<Rightarrow> int \<Rightarrow> real \<Rightarrow> real \<Rightarrow> py_error + eval_result" where
  "value_eval S fraction BED_OAR BED_tumor sparing_factors abt abn bound_OAR bound_tumor
      alpha beta fixed_prob fixed_mean fixed_std =
     (if fixed_prob = 1 \<and> fixed_std = 0 then Inl ZeroDivisionError
      else if 5 - fraction < 0 then Inl ValueError
      else if sparing_factors = [] then Inl IndexError
      else
        let X = belief_cdf S sparing_factors alpha beta fixed_prob fixed_mean fixed_std;
            (sf, prob) = sparing_factor_bins X;
            BEDT = np_arange BED_tumor bound_tumor 1 @ [bound_tumor, bound_tumor + 1];
            BEDNT = np_arange BED_OAR bound_OAR 1 @ [bound_OAR, bound_OAR + 1];
            Values = replicate (nat (5 - fraction))
                       (replicate (length BEDT) (replicate (length BEDNT)
                          (replicate (length sf) (Some 0))));
            actionspace = np_arange 0 22.3 0.1
        in if sf = [] then Inl ValueError
           else
             let C = \<lparr> ctx_fraction = fraction, ctx_BED_OAR = BED_OAR,
                       ctx_BED_tumor = BED_tumor, ctx_sf_end = last sparing_factors,
                       ctx_abt = abt, ctx_abn = abn, ctx_bound_OAR = bound_OAR,
                       ctx_bound_tumor = bound_tumor, ctx_sf = sf, ctx_prob = prob,
                       ctx_BEDT = BEDT, ctx_BEDNT = BEDNT,
                       ctx_OAR_dose = BED_calc_matrix actionspace abn sf,
                       ctx_tumor_dose = hd (BED_calc_matrix actionspace abt [1]),
                       ctx_actual_fraction_sf = argfind sf (np_round2 (last sparing_factors)),
                       ctx_interpolator = grid_interpolator S \<rparr>;
                 frac_states = map (\<lambda>i. (i, 6 - int i)) [0..<nat (6 - fraction)]
             in case snd (value_loop C frac_states (Values, None)) of
                  None \<Rightarrow> Inl UnboundLocalError
                | Some actual_policy \<Rightarrow>
                    Inr \<lparr> r_physical_dose = map_option (\<lambda>p. p / 10) actual_policy,
                          r_accumulated_tumor_dose =
                            map_option (\<lambda>p. BED_calc0 (p / 10) abt 1 + BED_tumor) actual_policy,
                          r_accumulated_OAR_dose =
                            map_option (\<lambda>p. BED_calc0 (p / 10) abn (last sparing_factors) + BED_OAR)
                              actual_policy,
                          r_tumor_dose = map_option (\<lambda>p. BED_calc0 (p / 10) abt 1) actual_policy,
                          r_OAR_dose =
                            map_option (\<lambda>p. BED_calc0 (p / 10) abn (last sparing_factors))
                              actual_policy \<rparr>)"

record plan_state =
  physical_doses :: "npfloat list"
  tumor_doses :: "npfloat list"
  OAR_doses :: "npfloat list"
  carried_OAR_dose :: npfloat
  carried_tumor_dose :: npfloat

record plan_args =
  pa_sparing_factors :: "real list"
  pa_abt :: real
  pa_abn :: real
  pa_bound_OAR :: real
  pa_bound_tumor :: real
  pa_alpha :: real
  pa_beta :: real
  pa_fixed_prob :: int
  pa_fixed_mean :: real
  pa_std_fixed :: real

definition whole_plan_step :: "scipy \<Rightarrow> plan_args \<Rightarrow> nat \<Rightarrow> plan_state \<Rightarrow> py_error + plan_state" where
  "whole_plan_step S P looper st =
     (case carried_OAR_dose st of None \<Rightarrow> Inl ValueError
      | Some acc_OAR \<Rightarrow>
     (case carried_tumor_dose st of None \<Rightarrow> Inl ValueError
      | Some acc_tumor \<Rightarrow>
     (case value_eval S (int looper + 1) acc_OAR acc_tumor
             (take (looper + 2) (pa_sparing_factors P)) (pa_abt P) (pa_abn P)
             (pa_bound_OAR P) (pa_bound_tumor P) (pa_alpha P) (pa_beta P)
             (pa_fixed_prob P) (pa_fixed_mean P) (pa_std_fixed P) of
        Inl e \<Rightarrow> Inl e
      | Inr r \<Rightarrow>
          Inr (st\<lparr> physical_doses := (physical_doses st)[looper := r_physical_dose r],
                   tumor_doses := (tumor_doses st)[looper := r_tumor_dose r],
                   OAR_doses := (OAR_doses st)[looper := r_OAR_dose r],
                   carried_OAR_dose := r_accumulated_OAR_dose r,
                   carried_tumor_dose := r_accumulated_tumor_dose r \<rparr>))))"

fun whole_plan_loop :: "scipy \<Rightarrow> plan_args \<Rightarrow> nat list \<Rightarrow> plan_state \<Rightarrow> py_error + plan_state" where
  "whole_plan_loop S P [] st = Inr st"
| "whole_plan_loop S P (looper # rest) st =
     (case whole_plan_step S P looper st of
        Inl e \<Rightarrow> Inl e
      | Inr st' \<Rightarrow> whole_plan_loop S P rest st')"

definition plan_start :: plan_state where
  "plan_start = \<lparr> physical_doses = replicate 5 (Some 0), tumor_doses = replicate 5 (Some 0),
      OAR_doses = replicate 5 (Some 0), carried_OAR_dose = Some 0, carried_tumor_dose = Some 0 \<rparr>"

definition whole_plan ::
  "scipy \<Rightarrow> real list \<Rightarrow> real \<Rightarrow> real \<Rightarrow> real \<Rightarrow> real \<Rightarrow> real \<Rightarrow> real \<Rightarrow> int \<Rightarrow> real \<Rightarrow> real
     \<Rightarrow> py_error + (npfloat list \<times> npfloat list \<times> npfloat list)" where
  "whole_plan S sparing_factors abt abn bound_OAR bound_tumor alpha beta fixed_prob fixed_mean
      std_fixed =
     (case whole_plan_loop S
             \<lparr> pa_sparing_factors = sparing_factors, pa_abt = abt, pa_abn = abn,
               pa_bound_OAR = bound_OAR, pa_bound_tumor = bound_tumor, pa_alpha = alpha,
               pa_beta = beta, pa_fixed_prob = fixed_prob, pa_fixed_mean = fixed_mean,
               pa_std_fixed = std_fixed \<rparr> [0..<5] plan_start of
        Inl e \<Rightarrow> Inl e
      | Inr st \<Rightarrow> Inr (tumor_doses st, OAR_doses st, physical_doses st))"

text \<open>The state of the loop of \<open>whole_plan\<close> after its first \<open>k\<close> passes: the three arrays
  and the accumulated doses that the next call of \<open>value_eval\<close> receives.\<close>

definition whole_plan_after :: "scipy \<Rightarrow> plan_args \<Rightarrow> nat \<Rightarrow> py_error + plan_state" where
  "whole_plan_after S P k = whole_plan_loop S P [0..<k] plan_start"

section \<open>The OAR-minimising variant: \<open>min_oar_bed\<close> of \<open>reinforce_oar.py\<close>\<close>

text \<open>
  \<open>min_oar_bed(keys, sets)\<close> reads its arguments from two dictionaries. \<open>keys\<close> holds
  the state of the course and the biology, \<open>sets\<close> the grid settings
  (\<open>afx.SETTING_DICT\<close> by default).
\<close>

record keys =
  k_fraction :: int
  k_number_of_fractions :: int
  k_accumulated_tumor_dose :: real
  k_sparing_factors_public :: "real list"
  k_alpha :: real
  k_beta :: real
  k_tumor_goal :: real
  k_abt :: real
  k_abn :: real
  k_min_dose :: real
  k_max_dose :: real
  k_fixed_prob :: int
  k_fixed_mean :: real
  k_fixed_std :: real

record settings =
  s_sf_low :: real
  s_sf_high :: real
  s_sf_stepsize :: real
  s_sf_prob_threshold :: real
  s_dose_stepsize :: real
  s_state_stepsize :: real
  s_inf_penalty :: real

text \<open>
  The helpers of the \<open>adaptfx\<close> package that \<open>min_oar_bed\<close> calls are not among the
  sources. Those whose result no property below depends on enter as parameters:
  \<open>afx.std_calc\<close>, \<open>afx.truncated_normal\<close> (its result, a frozen distribution, is
  represented by its distribution function), \<open>afx.sf_probdist\<close>, \<open>afx.step_round\<close> and
  \<open>afx.interpolate\<close> (applied to one query point).
\<close>

record afx =
  afx_std_calc :: "real list \<Rightarrow> real \<Rightarrow> real \<Rightarrow> real"
  afx_truncated_normal :: "real \<Rightarrow> real \<Rightarrow> real \<Rightarrow> real \<Rightarrow> (real \<Rightarrow> real)"
  afx_sf_probdist :: "(real \<Rightarrow> real) \<Rightarrow> real \<Rightarrow> real \<Rightarrow> real \<Rightarrow> real \<Rightarrow> real list \<times> real list"
  afx_step_round :: "real \<Rightarrow> real \<Rightarrow> real"
  afx_interpolate :: "real \<Rightarrow> real list \<Rightarrow> npfloat list \<Rightarrow> npfloat"

text \<open>
  Modelled from the spec: \<open>afx.convert_to_physical(bed, ab)\<close> is missing from the sources.
  The spec gives the closed form \<open>d = (-sf + sqrt(sf^2 + 4 sf^2 bed / ab)) / (2 sf^2 / ab)\<close>
  and says the action space is clamped to the dose that reaches the remaining budget
  "at sparing factor 1".
\<close>

definition convert_to_physical :: "real \<Rightarrow> real \<Rightarrow> npfloat" where
  "convert_to_physical bed ab = closed_form_dose 1 ab bed"

text \<open>
  Modelled from the spec: \<open>afx.bed_calc0\<close> and \<open>afx.bed_calc_matrix\<close> are missing from the
  sources. The spec has one dose-response formula, \<open>bed(dose, ab, sparing = 1)\<close>, which is
  \<^const>\<open>BED_calc0\<close>; \<open>afx.bed_calc0\<close> is taken to be it. The matrix form has one row per
  dose and one column per sparing factor here: \<open>min_oar_bed\<close> stores
  \<open>-last_bedn + penalties.reshape(n_bedt_states, 1)\<close> in a layer of shape
  \<open>(n_bedt_states, n_sf)\<close>.
\<close>

definition bed_calc_matrix :: "real list \<Rightarrow> real \<Rightarrow> real list \<Rightarrow> real list list" where
  "bed_calc_matrix doses ab sf = map (\<lambda>d. map (\<lambda>s. BED_calc0 d ab s) sf) doses"

text \<open>Lines 43 to 55: the dose bounds after the clamp to the remaining tumor budget.\<close>

definition clamped_max_dose :: "keys \<Rightarrow> npfloat" where
  "clamped_max_dose K =
     (let remaining_bed = k_tumor_goal K - k_accumulated_tumor_dose K;
          max_physical_dose = convert_to_physical remaining_bed (k_abt K)
      in if k_max_dose K = - 1 then max_physical_dose
         else if nan_less max_physical_dose (Some (k_max_dose K)) then max_physical_dose
         else Some (k_max_dose K))"

definition shrunk_min_dose :: "keys \<Rightarrow> settings \<Rightarrow> npfloat" where
  "shrunk_min_dose K Z =
     (if nan_less (clamped_max_dose K) (Some (k_min_dose K))
      then nlift2 (-) (clamped_max_dose K) (Some (s_dose_stepsize Z))
      else Some (k_min_dose K))"

text \<open>Lines 57 to 61: the action space between two bounds.\<close>

definition build_actionspace :: "afx \<Rightarrow> real \<Rightarrow> real \<Rightarrow> real \<Rightarrow> real list" where
  "build_actionspace A min_dose max_dose dose_stepsize =
     (let diff_action = afx_step_round A (max_dose - min_dose) dose_stepsize;
          physical_action = np_arange min_dose (diff_action + min_dose) dose_stepsize
      in physical_action @ [max_dose])"

record oar_context =
  oc_keys :: keys
  oc_sets :: settings
  oc_helpers :: afx
  oc_min_dose :: real
  oc_max_dose :: real
  oc_sf :: "real list"
  oc_prob :: "real list"
  oc_actionspace :: "real list"
  oc_bedt_states :: "real list"

text \<open>Lines 104 to 111: the last fraction.\<close>

definition last_fraction_dose :: "keys \<Rightarrow> real \<Rightarrow> real \<Rightarrow> npfloat" where
  "last_fraction_dose K min_dose max_dose =
     (let remaining_bed = k_tumor_goal K - k_accumulated_tumor_dose K;
          best_actions = convert_to_physical remaining_bed (k_abt K);
          best_actions = (if nan_less best_actions (Some min_dose) then Some min_dose
                          else best_actions);
          best_actions = (if nan_less (Some max_dose) best_actions then Some max_dose
                          else best_actions)
      in best_actions)"

definition future_values_discrete :: "npfloat list list \<Rightarrow> real list \<Rightarrow> npfloat list" where
  "future_values_discrete layer prob =
     map (\<lambda>row. nan_sum (map2 (\<lambda>v p. nlift2 (*) v (Some p)) row prob)) layer"

text \<open>Lines 95 to 102: the fraction being decided, when it is not the last.\<close>

definition oar_decision_vs :: "oar_context \<Rightarrow> npfloat list list list \<Rightarrow> nat \<Rightarrow> npfloat list" where
  "oar_decision_vs C values fraction_index =
     (let K = oc_keys C;
          tumor_limit = k_tumor_goal K + s_state_stepsize (oc_sets C);
          actual_sf = last (k_sparing_factors_public K);
          bedn_space = map (\<lambda>a. BED_calc0 a (k_abn K) actual_sf) (oc_actionspace C);
          bedt_space = map (\<lambda>a. BED_calc0 a (k_abt K) 1) (oc_actionspace C);
          fvd = future_values_discrete (layer_before values fraction_index) (oc_prob C);
          future_bedt = map (\<lambda>b. k_accumulated_tumor_dose K + b) bedt_space;
          future_bedt = map (\<lambda>b. if b > k_tumor_goal K then tumor_limit else b) future_bedt;
          future_values =
            map (\<lambda>b. afx_interpolate (oc_helpers C) b (oc_bedt_states C) fvd) future_bedt
      in map2 (\<lambda>b v. nlift2 (+) (Some (- b)) v) bedn_space future_values)"

text \<open>Lines 113 to 131: the terminal layer of the value table.\<close>

definition oar_terminal_layer :: "oar_context \<Rightarrow> npfloat list list" where
  "oar_terminal_layer C =
     (let K = oc_keys C;
          min_dose_bed = BED_calc0 (oc_min_dose C) (k_abt K) 1;
          max_dose_bed = BED_calc0 (oc_max_dose C) (k_abt K) 1
      in map (\<lambda>bedt.
           let last_action = k_tumor_goal K - bedt;
               last_action = (if last_action < min_dose_bed then min_dose_bed else last_action);
               last_action = (if last_action > max_dose_bed then max_dose_bed else last_action);
               best_action = convert_to_physical last_action (k_abt K);
               bedt_diff = (bedt + last_action - k_tumor_goal K) * s_inf_penalty (oc_sets C);
               penalty = (if bedt_diff > 0 then - bedt_diff else bedt_diff)
           in map (\<lambda>s. nlift2 (+) (map_option (\<lambda>a. - BED_calc0 a (k_abn K) s) best_action)
                          (Some penalty)) (oc_sf C)) (oc_bedt_states C))"

text \<open>Lines 136 to 152: an interior layer of the value table.\<close>

definition oar_interior_layer :: "oar_context \<Rightarrow> npfloat list list list \<Rightarrow> nat \<Rightarrow> npfloat list list" where
  "oar_interior_layer C values fraction_index =
     (let K = oc_keys C;
          tumor_limit = k_tumor_goal K + s_state_stepsize (oc_sets C);
          bedt_space = map (\<lambda>a. BED_calc0 a (k_abt K) 1) (oc_actionspace C);
          bedn_sf_space = bed_calc_matrix (oc_actionspace C) (k_abn K) (oc_sf C);
          fvd = future_values_discrete (layer_before values fraction_index) (oc_prob C)
      in map (\<lambda>bedt.
           let values_penalties =
                 map (\<lambda>b. let overdose = bedt + b > k_tumor_goal K;
                              future_bedt = (if overdose then tumor_limit else bedt + b);
                              future_value =
                                afx_interpolate (oc_helpers C) future_bedt (oc_bedt_states C) fvd
                          in if overdose
                             then nlift2 (-) future_value (Some (s_inf_penalty (oc_sets C)))
                             else future_value) bedt_space
           in map (\<lambda>j. nan_max_list
                     (map2 (\<lambda>bedn_row v. nlift2 (+) (Some (- (bedn_row ! j))) v)
                        bedn_sf_space values_penalties)) [0..<length (oc_sf C)])
           (oc_bedt_states C))"

text \<open>Lines 88 to 153: one pass of the loop over the remaining fractions, on the value
  table and the dose chosen so far.\<close>

definition oar_step ::
  "oar_context \<Rightarrow> nat \<times> int \<Rightarrow> npfloat list list list \<times> npfloat
     \<Rightarrow> npfloat list list list \<times> npfloat" where
  "oar_step C it st =
     (let fraction_index = fst it; fraction_state = snd it;
          values = fst st; physical_dose = snd st;
          fraction = k_fraction (oc_keys C);
          number_of_fractions = k_number_of_fractions (oc_keys C)
      in if fraction_state = fraction \<and> fraction \<noteq> number_of_fractions
         then (values,
               Some (oc_actionspace C ! nan_argmax (oar_decision_vs C values fraction_index)))
         else if fraction = number_of_fractions
         then (values, last_fraction_dose (oc_keys C) (oc_min_dose C) (oc_max_dose C))
         else if fraction_state = number_of_fractions
         then (values[fraction_index := oar_terminal_layer C], physical_dose)
         else if fraction_index \<noteq> 0
         then (values[fraction_index := oar_interior_layer C values fraction_index],
               physical_dose)
         else (values, physical_dose))"

fun oar_loop ::
  "oar_context \<Rightarrow> (nat \<times> int) list \<Rightarrow> npfloat list list list \<times> npfloat
     \<Rightarrow> npfloat list list list \<times> npfloat" where
  "oar_loop C [] st = st"
| "oar_loop C (it # rest) st = oar_loop C rest (oar_step C it st)"

definition min_oar_bed :: "afx \<Rightarrow> keys \<Rightarrow> settings \<Rightarrow> py_error + (npfloat \<times> npfloat \<times> npfloat)" where
  "min_oar_bed A K Z =
     (if k_sparing_factors_public K = [] then Inl IndexError
      else
        let actual_sf = last (k_sparing_factors_public K);
            mean = (if k_fixed_prob K = 0
                    then sum_list (k_sparing_factors_public K)
                           / real (length (k_sparing_factors_public K))
                    else k_fixed_mean K);
            std = (if k_fixed_prob K = 0
                   then afx_std_calc A (k_sparing_factors_public K) (k_alpha K) (k_beta K)
                   else k_fixed_std K);
            rv = afx_truncated_normal A mean std (s_sf_low Z) (s_sf_high Z);
            (sf, prob) = afx_sf_probdist A rv (s_sf_low Z) (s_sf_high Z) (s_sf_stepsize Z)
                           (s_sf_prob_threshold Z)
        in case clamped_max_dose K of
             None \<Rightarrow> Inl ValueError
           | Some max_dose \<Rightarrow>
         (case shrunk_min_dose K Z of
             None \<Rightarrow> Inl ValueError
           | Some min_dose \<Rightarrow>
             if s_dose_stepsize Z = 0 \<or> s_state_stepsize Z = 0 then Inl ZeroDivisionError
             else if k_number_of_fractions K - k_fraction K < 0 then Inl ValueError
             else
               let actionspace = build_actionspace A min_dose max_dose (s_dose_stepsize Z);
                   tumor_limit = k_tumor_goal K + s_state_stepsize Z;
                   bedt_states = np_arange (k_accumulated_tumor_dose K) tumor_limit
                                   (s_state_stepsize Z);
                   n_remaining_fractions = nat (k_number_of_fractions K - k_fraction K);
                   values = replicate n_remaining_fractions
                              (replicate (length bedt_states) (replicate (length sf) (Some 0)));
                   C = \<lparr> oc_keys = K, oc_sets = Z, oc_helpers = A, oc_min_dose = min_dose,
                         oc_max_dose = max_dose, oc_sf = sf, oc_prob = prob,
                         oc_actionspace = actionspace, oc_bedt_states = bedt_states \<rparr>;
                   remaining_fractions =
                     map (\<lambda>i. (i, k_number_of_fractions K - int i))
                       [0..<nat (k_number_of_fractions K - k_fraction K + 1)];
                   physical_dose = snd (oar_loop C remaining_fractions (values, Some 0));
                   tumor_dose = map_option (\<lambda>d. BED_calc0 d (k_abt K) 1) physical_dose;
                   oar_dose = map_option (\<lambda>d. BED_calc0 d (k_abn K) actual_sf) physical_dose
               in Inr (physical_dose, tumor_dose, oar_dose)))"

section \<open>An instance of the scipy interface for the examples\<close>

text \<open>
  The examples below need some distribution and some interpolator. This one puts half
  of the mass of the sparing-factor belief at \<open>0.5\<close> and the other half at \<open>2\<close>, beyond
  the sparing-factor grid, whatever the mean and deviation, and interpolates every table
  to \<open>0\<close>.
\<close>

definition two_point_scipy :: scipy where
  "two_point_scipy =
     \<lparr> truncnorm_cdf = (\<lambda>a b loc scale x. if x < 1 / 2 then 0 else if x < 2 then 1 / 2 else 1),
       grid_interpolator = (\<lambda>xs ys table x y. Some 0) \<rparr>"


text \<open>
  Two small solver states for the examples, each at the fraction being decided (fraction 4
  of 5). The 3D one has two actions that cost the OAR nothing; the other has the action
  space \<open>[0, 1/2, 1]\<close>, built with a \<open>step_round\<close> that rounds down to a multiple of the
  step, and a last sparing factor of \<open>0\<close>. In both every action has the same value.
\<close>

definition tied_solve_context :: solve_context where
  "tied_solve_context =
     \<lparr> ctx_fraction = 4, ctx_BED_OAR = 0, ctx_BED_tumor = 0, ctx_sf_end = 1, ctx_abt = 10,
       ctx_abn = 3, ctx_bound_OAR = 90, ctx_bound_tumor = 72, ctx_sf = [1], ctx_prob = [1],
       ctx_BEDT = [0, 72, 73], ctx_BEDNT = [0, 90, 91], ctx_OAR_dose = [[0, 0]],
       ctx_tumor_dose = [0, 0], ctx_actual_fraction_sf = 0,
       ctx_interpolator = (\<lambda>xs ys table x y. Some 0) \<rparr>"

definition rounding_afx :: afx where
  "rounding_afx =
     \<lparr> afx_std_calc = (\<lambda>xs alpha beta. 1),
       afx_truncated_normal = (\<lambda>mean std low high x. if x < 1 / 2 then 0 else 1),
       afx_sf_probdist = (\<lambda>rv low high step threshold. ([1 / 2], [1])),
       afx_step_round = (\<lambda>x step. of_int \<lfloor>x / step\<rfloor> * step),
       afx_interpolate = (\<lambda>x xp fp. Some 0) \<rparr>"

definition tied_keys :: keys where
  "tied_keys =
     \<lparr> k_fraction = 4, k_number_of_fractions = 5, k_accumulated_tumor_dose = 0,
       k_sparing_factors_public = [1, 0], k_alpha = 1, k_beta = 1, k_tumor_goal = 72,
       k_abt = 10, k_abn = 3, k_min_dose = 0, k_max_dose = 1, k_fixed_prob = 1,
       k_fixed_mean = 1, k_fixed_std = 1 \<rparr>"

definition example_settings :: settings where
  "example_settings =
     \<lparr> s_sf_low = 0, s_sf_high = 13 / 10, s_sf_stepsize = 1 / 100,
       s_sf_prob_threshold = 1 / 100000, s_dose_stepsize = 1 / 2, s_state_stepsize = 1,
       s_inf_penalty = 10000 \<rparr>"

definition tied_oar_context :: oar_context where
  "tied_oar_context =
     \<lparr> oc_keys = tied_keys, oc_sets = example_settings, oc_helpers = rounding_afx,
       oc_min_dose = 0, oc_max_dose = 1, oc_sf = [1 / 2], oc_prob = [1],
       oc_actionspace = build_actionspace rounding_afx 0 1 (1 / 2),
       oc_bedt_states = [0, 72] \<rparr>"

text \<open>
  A last fraction (5 of 5) with a tumor at BED \<open>5\<close> against the goal \<open>8\<close> and \<open>abt = 4\<close>: the dose
  that reaches the goal is \<open>2\<close>, below the configured minimum \<open>3\<close>.
\<close>

definition undershoot_keys :: keys where
  "undershoot_keys =
     \<lparr> k_fraction = 5, k_number_of_fractions = 5, k_accumulated_tumor_dose = 5,
       k_sparing_factors_public = [1, 1], k_alpha = 1, k_beta = 1, k_tumor_goal = 8,
       k_abt = 4, k_abn = 3, k_min_dose = 3, k_max_dose = 10, k_fixed_prob = 1,
       k_fixed_mean = 1, k_fixed_std = 1 \<rparr>"


section \<open>Facts about the numeric conventions\<close>

lemma nlift2_Some [simp]: "nlift2 f (Some x) (Some y) = Some (f x y)"
  by (simp add: nlift2_def)

lemma nlift2_None1 [simp]: "nlift2 f None b = None"
  by (simp add: nlift2_def)

lemma nlift2_None2 [simp]: "nlift2 f a None = None"
  by (simp add: nlift2_def split: option.splits)

lemma nan_less_Some [simp]: "nan_less (Some x) (Some y) = (x < y)"
  by (simp add: nan_less_def)

lemma nan_less_None1 [simp]: "nan_less None b = False"
  by (simp add: nan_less_def)

lemma nan_less_None2 [simp]: "nan_less a None = False"
  by (simp add: nan_less_def split: option.splits)

section \<open>Properties of the dose-response model\<close>

lemma BED_calc0_diff_dose:
  assumes "0 < ab"
  shows "BED_calc0 d2 ab sf - BED_calc0 d1 ab sf = sf * (d2 - d1) * (ab + sf * (d1 + d2)) / ab"
  using assms by (simp add: BED_calc0_def field_simps)

lemma BED_calc0_strict_mono_dose:
  assumes "0 < ab" "0 < sf" "- ab / (2 * sf) \<le> d1" "d1 < d2"
  shows "BED_calc0 d1 ab sf < BED_calc0 d2 ab sf"
proof -
  have "- ab \<le> 2 * sf * d1"
    using assms by (simp add: field_simps)
  moreover have "sf * d1 < sf * d2"
    using assms by simp
  ultimately have "0 < ab + sf * (d1 + d2)"
    by (simp add: algebra_simps)
  then have "0 < sf * (d2 - d1) * (ab + sf * (d1 + d2)) / ab"
    using assms by simp
  then show ?thesis
    using BED_calc0_diff_dose [OF assms(1), of d2 sf d1] by linarith
qed

lemma BED_calc0_swap: "BED_calc0 d ab s = BED_calc0 s ab d"
  by (simp add: BED_calc0_def mult.commute)

lemma BED_calc0_strict_mono_sparing:
  assumes "0 < ab" "0 < d" "- ab / (2 * d) \<le> s1" "s1 < s2"
  shows "BED_calc0 d ab s1 < BED_calc0 d ab s2"
  using BED_calc0_strict_mono_dose [OF assms] by (simp add: BED_calc0_swap)

lemma BED_calc0_nonneg:
  assumes "0 < ab" "0 \<le> sf * d"
  shows "0 \<le> BED_calc0 d ab sf"
proof -
  define x where "x = sf * d"
  have "0 \<le> 1 + x / ab"
    using assms by (simp add: x_def add_nonneg_nonneg)
  then have "0 \<le> x * (1 + x / ab)"
    using assms by (simp add: x_def)
  then show ?thesis by (simp add: BED_calc0_def x_def)
qed

text \<open>
  Claim C6, as the code has it. \<open>BED_calc0\<close> is the linear-quadratic formula and vanishes
  at dose zero. It is a parabola in the dose, so it increases only to the right of its
  vertex: strictly increasing in the dose on \<open>d \<ge> - ab / (2 sf)\<close> for \<open>sf > 0\<close> (hence on
  all non-negative doses), and strictly increasing in the sparing factor on
  \<open>sf \<ge> - ab / (2 d)\<close> for \<open>d > 0\<close> (hence on all non-negative sparing factors).
\<close>

theorem BED_calc0_formula_zero_monotone:
  assumes "0 < ab"
  shows "BED_calc0 d ab sf = sf * d * (1 + sf * d / ab)
     \<and> BED_calc0 0 ab sf = 0
     \<and> (\<forall>d1 d2. 0 < sf \<and> - ab / (2 * sf) \<le> d1 \<and> d1 < d2
            \<longrightarrow> BED_calc0 d1 ab sf < BED_calc0 d2 ab sf)
     \<and> (\<forall>s1 s2. 0 < d \<and> - ab / (2 * d) \<le> s1 \<and> s1 < s2
            \<longrightarrow> BED_calc0 d ab s1 < BED_calc0 d ab s2)"
proof (intro conjI allI impI)
  show "BED_calc0 d ab sf = sf * d * (1 + sf * d / ab)"
    by (simp add: BED_calc0_def)
  show "BED_calc0 0 ab sf = 0"
    by (simp add: BED_calc0_def)
next
  fix d1 d2 assume "0 < sf \<and> - ab / (2 * sf) \<le> d1 \<and> d1 < d2"
  then show "BED_calc0 d1 ab sf < BED_calc0 d2 ab sf"
    using BED_calc0_strict_mono_dose [OF assms] by blast
next
  fix s1 s2 assume "0 < d \<and> - ab / (2 * d) \<le> s1 \<and> s1 < s2"
  then show "BED_calc0 d ab s1 < BED_calc0 d ab s2"
    using BED_calc0_strict_mono_sparing [OF assms] by blast
qed

text \<open>The theorem at \<open>ab = 10\<close>, dose \<open>2\<close>, sparing factor \<open>1\<close>: the value, the zero, and
  one instance of each monotonicity.\<close>

theorem BED_calc0_formula_zero_monotone_witness:
  "BED_calc0 2 10 1 = 12 / 5 \<and> BED_calc0 0 10 1 = 0
     \<and> BED_calc0 1 10 1 < BED_calc0 2 10 1
     \<and> BED_calc0 2 10 (1 / 2) < BED_calc0 2 10 1"
proof -
  have pos: "(0::real) < 10" by simp
  note th = BED_calc0_formula_zero_monotone [OF pos, of 2 1]
  have "BED_calc0 2 10 1 = 12 / 5" using th by simp
  moreover have "BED_calc0 0 10 1 = 0" using th by simp
  moreover have "BED_calc0 1 10 1 < BED_calc0 2 10 1"
  proof -
    have "(0::real) < 1 \<and> - 10 / (2 * 1) \<le> (1::real) \<and> (1::real) < 2" by simp
    then show ?thesis using th by blast
  qed
  moreover have "BED_calc0 2 10 (1 / 2) < BED_calc0 2 10 1"
  proof -
    have "(0::real) < 2 \<and> - 10 / (2 * 2) \<le> (1 / 2 :: real) \<and> (1 / 2 :: real) < 1" by simp
    then show ?thesis using th by blast
  qed
  ultimately show ?thesis by blast
qed

text \<open>
  Claim C6 as written lets the dose range over all reals. Left of the vertex the
  parabola falls: with \<open>ab = 10\<close> and \<open>sf = 1\<close> the dose \<open>-10\<close> is below the dose \<open>-5\<close>,
  yet its BED is the larger one.
\<close>

theorem BED_calc0_not_monotone_counterexample:
  "(0::real) < 10 \<and> (0::real) < 1 \<and> (-10::real) < -5
     \<and> BED_calc0 (-5) 10 1 < BED_calc0 (-10) 10 1"
  by (simp add: BED_calc0_def)

section \<open>Properties of the belief model\<close>

lemma argmax_scan_spec:
  assumes "bi < length ps" "ps ! bi = bv" "\<forall>j<length ps. ps ! j \<le> bv"
    "\<forall>j<bi. ps ! j < bv" "i = length ps"
  shows "argmax_scan xs i bi bv < length (ps @ xs)
     \<and> (\<forall>j<length (ps @ xs). (ps @ xs) ! j \<le> (ps @ xs) ! argmax_scan xs i bi bv)
     \<and> (\<forall>j<argmax_scan xs i bi bv. (ps @ xs) ! j < (ps @ xs) ! argmax_scan xs i bi bv)"
  using assms
proof (induction xs arbitrary: ps i bi bv)
  case Nil
  then show ?case by simp
next
  case (Cons x xs)
  show ?case
  proof (cases "bv < x")
    case True
    have a1: "i < length (ps @ [x])" using Cons.prems by simp
    have a2: "(ps @ [x]) ! i = x" using Cons.prems by simp
    have a3: "\<forall>j<length (ps @ [x]). (ps @ [x]) ! j \<le> x"
    proof (intro allI impI)
      fix j assume "j < length (ps @ [x])"
      then consider "j < length ps" | "j = length ps" by force
      then show "(ps @ [x]) ! j \<le> x"
      proof cases
        case 1
        then have "ps ! j \<le> bv" using Cons.prems by blast
        then show ?thesis using 1 True by (simp add: nth_append)
      next
        case 2
        then show ?thesis by simp
      qed
    qed
    have a4: "\<forall>j<i. (ps @ [x]) ! j < x"
    proof (intro allI impI)
      fix j assume j: "j < i"
      then have jl: "j < length ps" using Cons.prems by simp
      then have "ps ! j \<le> bv" using Cons.prems by blast
      then have "ps ! j < x" using True by linarith
      then show "(ps @ [x]) ! j < x" using jl by (simp add: nth_append)
    qed
    have a5: "Suc i = length (ps @ [x])" using Cons.prems by simp
    from Cons.IH [OF a1 a2 a3 a4 a5] True show ?thesis by simp
  next
    case False
    have a1: "bi < length (ps @ [x])" using Cons.prems by simp
    have a2: "(ps @ [x]) ! bi = bv" using Cons.prems by (simp add: nth_append)
    have a3: "\<forall>j<length (ps @ [x]). (ps @ [x]) ! j \<le> bv"
    proof (intro allI impI)
      fix j assume "j < length (ps @ [x])"
      then consider "j < length ps" | "j = length ps" by force
      then show "(ps @ [x]) ! j \<le> bv"
      proof cases
        case 1
        then show ?thesis using Cons.prems by (simp add: nth_append)
      next
        case 2
        then show ?thesis using False by simp
      qed
    qed
    have a4: "\<forall>j<bi. (ps @ [x]) ! j < bv"
      using Cons.prems by (simp add: nth_append)
    have a5: "Suc i = length (ps @ [x])" using Cons.prems by simp
    from Cons.IH [OF a1 a2 a3 a4 a5] False show ?thesis by simp
  qed
qed

lemma np_argmax_spec:
  assumes "xs \<noteq> []"
  shows "np_argmax xs < length xs
     \<and> (\<forall>j<length xs. xs ! j \<le> xs ! np_argmax xs)
     \<and> (\<forall>j<np_argmax xs. xs ! j < xs ! np_argmax xs)"
proof -
  obtain x rest where xs: "xs = x # rest" using assms by (cases xs) auto
  have "argmax_scan rest 1 0 x < length ([x] @ rest)
     \<and> (\<forall>j<length ([x] @ rest). ([x] @ rest) ! j \<le> ([x] @ rest) ! argmax_scan rest 1 0 x)
     \<and> (\<forall>j<argmax_scan rest 1 0 x. ([x] @ rest) ! j < ([x] @ rest) ! argmax_scan rest 1 0 x)"
    by (rule argmax_scan_spec) auto
  then show ?thesis by (simp add: xs np_argmax_def)
qed


lemma length_np_arange: "length (np_arange a b s) = nat \<lceil>(b - a) / s\<rceil>"
  by (simp add: np_arange_def)

lemma nth_np_arange: "i < nat \<lceil>(b - a) / s\<rceil> \<Longrightarrow> np_arange a b s ! i = a + real i * s"
  by (simp add: np_arange_def)







section \<open>The closed-form dose of the last session\<close>

lemma root_argument_factor:
  "sf\<^sup>2 + 4 * sf\<^sup>2 * remaining / ab = sf\<^sup>2 * (1 + 4 * remaining / (ab::real))"
  by (simp add: algebra_simps)

lemma negative_root_argument:
  assumes "0 < (ab::real)" "sf\<^sup>2 + 4 * sf\<^sup>2 * remaining / ab < 0"
  shows "remaining < - ab / 4" "sf \<noteq> 0"
proof -
  have neg: "sf\<^sup>2 * (1 + 4 * remaining / ab) < 0"
    using assms(2) by (simp only: root_argument_factor)
  show "sf \<noteq> 0" using neg by auto
  have "0 \<le> sf\<^sup>2" by simp
  then have "1 + 4 * remaining / ab < 0"
    using neg by (metis mult_nonneg_nonneg not_le)
  then show "remaining < - ab / 4"
    using assms(1) by (simp add: field_simps)
qed

lemma nonneg_root_argument:
  assumes "0 < (ab::real)" "0 \<le> remaining"
  shows "0 \<le> sf\<^sup>2 + 4 * sf\<^sup>2 * remaining / ab"
proof -
  have "0 \<le> 4 * remaining / ab" using assms by simp
  then have "0 \<le> sf\<^sup>2 * (1 + 4 * remaining / ab)"
    by (intro mult_nonneg_nonneg) auto
  then show ?thesis by (simp only: root_argument_factor)
qed

lemma closed_form_dose_number:
  assumes "ab \<noteq> 0" "sf \<noteq> 0" "0 \<le> sf\<^sup>2 + 4 * sf\<^sup>2 * remaining / ab"
  shows "closed_form_dose sf ab remaining
       = Some ((- sf + sqrt (sf\<^sup>2 + 4 * sf\<^sup>2 * remaining / ab)) / (2 * sf\<^sup>2 / ab))"
  using assms by (simp add: closed_form_dose_def np_sqrt_def)

lemma closed_form_dose_nan:
  assumes "sf\<^sup>2 + 4 * sf\<^sup>2 * remaining / ab < 0"
  shows "closed_form_dose sf ab remaining = None"
  using assms by (simp add: closed_form_dose_def np_sqrt_def)

lemma closed_form_dose_nonneg:
  assumes "0 < ab" "sf \<noteq> 0" "0 \<le> remaining"
  shows "0 \<le> (- sf + sqrt (sf\<^sup>2 + 4 * sf\<^sup>2 * remaining / ab)) / (2 * sf\<^sup>2 / ab)"
proof -
  have "sf\<^sup>2 \<le> sf\<^sup>2 + 4 * sf\<^sup>2 * remaining / ab"
    using assms by simp
  then have "sqrt (sf\<^sup>2) \<le> sqrt (sf\<^sup>2 + 4 * sf\<^sup>2 * remaining / ab)"
    by (rule real_sqrt_le_mono)
  then have "sf \<le> sqrt (sf\<^sup>2 + 4 * sf\<^sup>2 * remaining / ab)"
    by simp
  then have "0 \<le> - sf + sqrt (sf\<^sup>2 + 4 * sf\<^sup>2 * remaining / ab)" by simp
  moreover have "0 < 2 * sf\<^sup>2 / ab" using assms by simp
  ultimately show ?thesis by (rule divide_nonneg_pos)
qed

lemma closed_form_dose_reaches:
  assumes "0 < ab" "sf \<noteq> 0" "0 \<le> sf\<^sup>2 + 4 * sf\<^sup>2 * remaining / ab"
  shows "BED_calc0 ((- sf + sqrt (sf\<^sup>2 + 4 * sf\<^sup>2 * remaining / ab)) / (2 * sf\<^sup>2 / ab)) ab sf
       = remaining"
proof -
  define r where "r = sqrt (sf\<^sup>2 + 4 * sf\<^sup>2 * remaining / ab)"
  have r2: "r\<^sup>2 = sf\<^sup>2 + 4 * sf\<^sup>2 * remaining / ab"
    using assms(3) by (simp add: r_def)
  define x where "x = sf * ((- sf + r) / (2 * sf\<^sup>2 / ab))"
  have x: "x = ab * (r - sf) / (2 * sf)"
    using assms by (simp add: x_def field_simps power2_eq_square)
  have "x * (1 + x / ab) = (r\<^sup>2 - sf\<^sup>2) * ab / (4 * sf\<^sup>2)"
    using assms by (simp add: x field_simps power2_eq_square)
  also have "\<dots> = remaining"
    using assms by (simp add: r2 field_simps)
  finally show ?thesis
    by (simp add: BED_calc0_def x_def r_def)
qed

lemma final_action_over_limit:
  assumes "BED_OAR > bound_OAR \<or> BED_tumor > bound_tumor"
  shows "final_action sf_end BED_OAR BED_tumor abt abn bound_OAR bound_tumor
       = (Some 0, - 100000000000)"
  using assms by (simp add: final_action_def Let_def)

lemma final_action_within:
  assumes "\<not> (BED_OAR > bound_OAR \<or> BED_tumor > bound_tumor)"
  shows "final_action sf_end BED_OAR BED_tumor abt abn bound_OAR bound_tumor
       = (let best = nan_min (closed_form_dose sf_end abn (bound_OAR - BED_OAR))
                       (closed_form_dose 1 abt (bound_tumor - BED_tumor))
          in (if nan_less best (Some 0) then Some 0 else best, 0))"
  using assms by (simp add: final_action_def Let_def)

lemma value_eval_last_session:
  assumes "\<not> (fixed_prob = 1 \<and> fixed_std = 0)" "sparing_factors \<noteq> []"
    and "fst (sparing_factor_bins
                (belief_cdf S sparing_factors alpha beta fixed_prob fixed_mean fixed_std)) \<noteq> []"
  shows "value_eval S 5 BED_OAR BED_tumor sparing_factors abt abn bound_OAR bound_tumor
           alpha beta fixed_prob fixed_mean fixed_std
       = (let d = fst (final_action (last sparing_factors) BED_OAR BED_tumor abt abn
                         bound_OAR bound_tumor)
          in Inr \<lparr> r_physical_dose = d,
                   r_accumulated_tumor_dose = map_option (\<lambda>x. BED_calc0 x abt 1 + BED_tumor) d,
                   r_accumulated_OAR_dose =
                     map_option (\<lambda>x. BED_calc0 x abn (last sparing_factors) + BED_OAR) d,
                   r_tumor_dose = map_option (\<lambda>x. BED_calc0 x abt 1) d,
                   r_OAR_dose = map_option (\<lambda>x. BED_calc0 x abn (last sparing_factors)) d \<rparr>)"
proof -
  obtain sf prob where bins:
    "sparing_factor_bins
       (belief_cdf S sparing_factors alpha beta fixed_prob fixed_mean fixed_std) = (sf, prob)"
    by (cases "sparing_factor_bins
       (belief_cdf S sparing_factors alpha beta fixed_prob fixed_mean fixed_std)")
  have sf: "sf \<noteq> []" using assms(3) bins by simp
  have states: "map (\<lambda>i. (i, 6 - int i)) [0..<nat (6 - 5)] = [(0, 6)]" by simp
  show ?thesis
    using assms(1,2) sf
    by (simp add: value_eval_def bins Let_def states value_step_def option.map_comp comp_def
          option.map_ident)
qed

lemma boolean_index_nonempty:
  assumes "i < length xs" "length keep = length xs" "keep ! i"
  shows "boolean_index xs keep \<noteq> []"
proof -
  have "(xs ! i, keep ! i) \<in> set (zip xs keep)"
    using assms by (metis in_set_zip fst_conv snd_conv)
  then have "(xs ! i, keep ! i) \<in> set (filter snd (zip xs keep))"
    using assms(3) by simp
  then show ?thesis
    unfolding boolean_index_def by (metis empty_iff list.map_disc_iff set_empty)
qed

lemma length_np_arange_sf: "length (np_arange 0.01 1.31 0.01) = 130"
  by (simp add: length_np_arange)

lemma length_probdist: "length (probdist X) = 130"
  by (simp add: probdist_def length_np_arange)

lemma nth_probdist:
  "i < 130 \<Longrightarrow> probdist X ! i
     = X (0.01 + real i * 0.01 + 0.005) - X (0.01 + real i * 0.01 - 0.005)"
  by (simp add: probdist_def length_np_arange nth_np_arange)

lemma two_point_belief_cdf:
  "belief_cdf two_point_scipy sparing_factors alpha beta fixed_prob fixed_mean fixed_std
     = (\<lambda>x. if x < 1 / 2 then 0 else if x < 2 then 1 / 2 else 1)"
  by (simp add: belief_cdf_def get_truncated_normal_def two_point_scipy_def Let_def)

lemma two_point_bins_nonempty:
  "fst (sparing_factor_bins
          (belief_cdf two_point_scipy sparing_factors alpha beta fixed_prob fixed_mean fixed_std))
     \<noteq> []"
proof -
  define X where "X = (\<lambda>x::real. if x < 1 / 2 then 0 else if x < 2 then 1 / 2 else (1::real))"
  have "probdist X ! 49 = 1 / 2"
    by (simp add: nth_probdist X_def)
  then have "map (\<lambda>p. p > 0.00001) (probdist X) ! 49"
    by (simp add: length_probdist)
  then have "boolean_index (np_arange 0.01 1.31 0.01) (map (\<lambda>p. p > 0.00001) (probdist X)) \<noteq> []"
    by (intro boolean_index_nonempty [of 49]) (simp_all add: length_probdist length_np_arange)
  then show ?thesis
    by (simp add: sparing_factor_bins_def Let_def two_point_belief_cdf X_def)
qed

lemma terminal_cell_over_limit:
  assumes "OAR_value > bound_OAR \<or> tumor_value > bound_tumor"
  shows "terminal_cell sf abt abn bound_OAR bound_tumor tumor_value OAR_value
       = map (\<lambda>s. Some (min (tumor_value - bound_tumor) 0 * 10 - 100000000000)) sf"
  using assms
  by (simp add: terminal_cell_def terminal_value_def final_action_over_limit BED_calc0_def)

lemma final_action_number:
  assumes "0 < abt" "0 < abn" "sf_end \<noteq> 0"
  shows "\<exists>d. fst (final_action sf_end BED_OAR BED_tumor abt abn bound_OAR bound_tumor) = Some d
           \<and> 0 \<le> d"
proof (cases "BED_OAR > bound_OAR \<or> BED_tumor > bound_tumor")
  case True
  then show ?thesis by (simp add: final_action_over_limit)
next
  case False
  then have rem: "0 \<le> bound_OAR - BED_OAR" "0 \<le> bound_tumor - BED_tumor" by auto
  have o: "closed_form_dose sf_end abn (bound_OAR - BED_OAR)
       = Some ((- sf_end + sqrt (sf_end\<^sup>2 + 4 * sf_end\<^sup>2 * (bound_OAR - BED_OAR) / abn))
               / (2 * sf_end\<^sup>2 / abn))"
    using assms nonneg_root_argument [OF assms(2) rem(1)]
    by (intro closed_form_dose_number) auto
  have t: "closed_form_dose 1 abt (bound_tumor - BED_tumor)
       = Some ((- 1 + sqrt (1\<^sup>2 + 4 * 1\<^sup>2 * (bound_tumor - BED_tumor) / abt))
               / (2 * 1\<^sup>2 / abt))"
    using assms nonneg_root_argument [OF assms(1) rem(2), of 1]
    by (intro closed_form_dose_number) auto
  show ?thesis
    unfolding final_action_within [OF False] o t
    by (auto simp: Let_def nan_min_def)
qed

lemma terminal_value_number:
  assumes "0 < abt" "0 < abn" "s \<noteq> 0"
  shows "\<exists>v. terminal_value s abt abn bound_OAR bound_tumor tumor_value OAR_value = Some v"
proof -
  from final_action_number [OF assms, of OAR_value tumor_value bound_OAR bound_tumor]
  obtain d where "fst (final_action s OAR_value tumor_value abt abn bound_OAR bound_tumor) = Some d"
    by blast
  then show ?thesis
    by (simp add: terminal_value_def Let_def)
qed

lemma terminal_cell_numbers:
  assumes "0 < abt" "0 < abn" "\<forall>s\<in>set sf. s \<noteq> 0"
  shows "None \<notin> set (terminal_cell sf abt abn bound_OAR bound_tumor tumor_value OAR_value)"
proof
  assume "None \<in> set (terminal_cell sf abt abn bound_OAR bound_tumor tumor_value OAR_value)"
  then obtain s where s: "s \<in> set sf"
      "terminal_value s abt abn bound_OAR bound_tumor tumor_value OAR_value = None"
    unfolding terminal_cell_def by (metis (no_types, lifting) imageE list.set_map)
  then have "s \<noteq> 0" using assms(3) by blast
  from terminal_value_number [OF assms(1,2) this, of bound_OAR bound_tumor tumor_value OAR_value]
  show False using s(2) by simp
qed

text \<open>
  Claim C3. Let the alpha-beta ratios be positive. If the argument of the square root of
  the OAR closed form, \<open>sf^2 + 4 sf^2 (bound_OAR - BED_OAR) / abn\<close>, or of the tumor closed
  form, \<open>1 + 4 (bound_tumor - BED_tumor) / abt\<close>, is negative, then the accumulated dose of
  that tissue exceeds its bound, so the over-limit branch runs: the action is \<open>0\<close> and the
  penalty \<open>-100000000000\<close>. The dose that \<open>value_eval\<close> returns for the last fraction is
  then the number \<open>0\<close>, and the cell that the terminal layer stores for this state is, for
  every sparing-factor bin, the number \<open>10 * min(BED_tumor - bound_tumor, 0) - 100000000000\<close>:
  no NaN.
\<close>

theorem negative_root_takes_over_limit_branch:
  assumes "0 < abt" "0 < abn"
    and "sf\<^sup>2 + 4 * sf\<^sup>2 * (bound_OAR - BED_OAR) / abn < 0
         \<or> 1 + 4 * 1 * (bound_tumor - BED_tumor) / abt < 0"
  shows "(BED_OAR > bound_OAR \<or> BED_tumor > bound_tumor)
     \<and> final_action sf BED_OAR BED_tumor abt abn bound_OAR bound_tumor
         = (Some 0, - 100000000000)
     \<and> (\<forall>S sparing_factors alpha beta fixed_prob fixed_mean fixed_std r.
           sparing_factors \<noteq> [] \<and> last sparing_factors = sf
           \<and> value_eval S 5 BED_OAR BED_tumor sparing_factors abt abn bound_OAR bound_tumor
                 alpha beta fixed_prob fixed_mean fixed_std = Inr r
           \<longrightarrow> r_physical_dose r = Some 0 \<and> r_tumor_dose r = Some 0 \<and> r_OAR_dose r = Some 0)
     \<and> (\<forall>bins. terminal_cell bins abt abn bound_OAR bound_tumor BED_tumor BED_OAR
           = map (\<lambda>s. Some (min (BED_tumor - bound_tumor) 0 * 10 - 100000000000)) bins)"
proof -
  have over: "BED_OAR > bound_OAR \<or> BED_tumor > bound_tumor"
  proof (rule disjE [OF assms(3)])
    assume "sf\<^sup>2 + 4 * sf\<^sup>2 * (bound_OAR - BED_OAR) / abn < 0"
    from negative_root_argument(1) [OF assms(2) this] assms(2)
    show ?thesis by simp
  next
    assume "1 + 4 * 1 * (bound_tumor - BED_tumor) / abt < 0"
    then have "1\<^sup>2 + 4 * 1\<^sup>2 * (bound_tumor - BED_tumor) / abt < 0" by simp
    from negative_root_argument(1) [OF assms(1) this] assms(1)
    show ?thesis by simp
  qed
  have fin: "final_action sf BED_OAR BED_tumor abt abn bound_OAR bound_tumor
         = (Some 0, - 100000000000)"
    by (rule final_action_over_limit [OF over])
  have ev: "r_physical_dose r = Some 0 \<and> r_tumor_dose r = Some 0 \<and> r_OAR_dose r = Some 0"
    if h: "sparing_factors \<noteq> [] \<and> last sparing_factors = sf
           \<and> value_eval S 5 BED_OAR BED_tumor sparing_factors abt abn bound_OAR bound_tumor
                 alpha beta fixed_prob fixed_mean fixed_std = Inr r"
    for S sparing_factors alpha beta fixed_prob fixed_mean fixed_std r
  proof -
    have ne: "sparing_factors \<noteq> []" and l: "last sparing_factors = sf" using h by auto
    have ret: "value_eval S 5 BED_OAR BED_tumor sparing_factors abt abn bound_OAR bound_tumor
                 alpha beta fixed_prob fixed_mean fixed_std = Inr r" using h by simp
    have a: "\<not> (fixed_prob = 1 \<and> fixed_std = 0)"
      using ret by (auto simp: value_eval_def)
    have b: "fst (sparing_factor_bins
                    (belief_cdf S sparing_factors alpha beta fixed_prob fixed_mean fixed_std))
               \<noteq> []"
      using ret a ne by (auto simp: value_eval_def Let_def split_beta split: if_splits)
    show ?thesis
      using ret unfolding value_eval_last_session [OF a ne b] l fin
      by (auto simp: BED_calc0_def Let_def)
  qed
  have cell: "terminal_cell bins abt abn bound_OAR bound_tumor BED_tumor BED_OAR
           = map (\<lambda>s. Some (min (BED_tumor - bound_tumor) 0 * 10 - 100000000000)) bins" for bins
    by (rule terminal_cell_over_limit [OF over])
  show ?thesis
    using over fin ev cell by blast
qed

text \<open>The theorem at \<open>abt = 2\<close>, \<open>abn = 3\<close>, a tumor at BED \<open>11\<close> against the goal \<open>10\<close>
  (the tumor argument is \<open>1 + 4 * (-1) / 2 = -1\<close>) and an OAR at \<open>0\<close> against \<open>90\<close>.\<close>

theorem negative_root_takes_over_limit_branch_witness:
  "final_action 1 0 11 2 3 90 10 = (Some 0, - 100000000000)
     \<and> (\<exists>r. value_eval two_point_scipy 5 0 11 [1, 1] 2 3 90 10 1 1 0 0 0 = Inr r
            \<and> r_physical_dose r = Some 0)
     \<and> terminal_cell [1 / 2, 1] 2 3 90 10 11 0 = [Some (- 100000000000), Some (- 100000000000)]"
proof -
  have abt: "(0::real) < 2" and abn: "(0::real) < 3" by simp_all
  have neg: "(1::real)\<^sup>2 + 4 * 1\<^sup>2 * (90 - 0) / 3 < 0 \<or> (1::real) + 4 * 1 * (10 - 11) / 2 < 0"
    by simp
  note th = negative_root_takes_over_limit_branch [OF abt abn neg]
  have ret: "\<exists>r. value_eval two_point_scipy 5 0 11 [1, 1] 2 3 90 10 1 1 0 0 0 = Inr r"
    using value_eval_last_session [of 0 0 "[1, 1]" two_point_scipy 1 1 0 0 11 2 3 90 10]
      two_point_bins_nonempty [of "[1, 1]" 1 1 0 0 0]
    by (simp add: Let_def)
  then obtain r where r: "value_eval two_point_scipy 5 0 11 [1, 1] 2 3 90 10 1 1 0 0 0 = Inr r"
    by blast
  have "r_physical_dose r = Some 0"
    using th r by (metis last.simps list.distinct(1))
  moreover have "terminal_cell [1 / 2, 1] 2 3 90 10 11 0
       = [Some (- 100000000000), Some (- 100000000000)]"
    using th by simp
  ultimately show ?thesis using th r by blast
qed

section \<open>The discretised belief\<close>

lemma boolean_index_zip:
  assumes "length xs = length ys"
  shows "zip (boolean_index xs (map P ys)) (boolean_index ys (map P ys))
       = filter (\<lambda>(x, y). P y) (zip xs ys)"
    and "length (boolean_index xs (map P ys)) = length (boolean_index ys (map P ys))"
  using assms
  by (induction xs ys rule: list_induct2) (simp_all add: boolean_index_def)

lemma boolean_index_sum_le:
  assumes "\<forall>y\<in>set ys. 0 \<le> (y::real)"
  shows "sum_list (boolean_index ys (map P ys)) \<le> sum_list ys"
  using assms
  by (induction ys) (simp_all add: boolean_index_def add_increasing)

lemma probdist_bin_mass: "probdist X = map (bin_mass X) (np_arange 0.01 1.31 0.01)"
  by (simp add: probdist_def bin_mass_def)

lemma probdist_prefix_sum:
  assumes "mono X"
  shows "(\<Sum>i\<leftarrow>[0..<n]. bin_mass X (0.01 + real i * 0.01))
       \<le> X (0.01 + real n * 0.01 - 0.005) - X 0.005"
proof (induction n)
  case 0
  show ?case by simp
next
  case (Suc n)
  have "X (0.01 + real n * 0.01 + 0.005) \<le> X (0.01 + real (Suc n) * 0.01 - 0.005)"
    by (rule monoD [OF assms]) (simp add: field_simps)
  then show ?case
    using Suc.IH by (simp add: bin_mass_def)
qed

lemma probdist_total_mass:
  assumes "mono X"
  shows "sum_list (probdist X) \<le> X 1.305 - X 0.005"
proof -
  have "sum_list (probdist X) = (\<Sum>i\<leftarrow>[0..<130]. bin_mass X (0.01 + real i * 0.01))"
    by (simp add: probdist_bin_mass np_arange_def comp_def)
  also have "\<dots> \<le> X (0.01 + real (130::nat) * 0.01 - 0.005) - X 0.005"
    by (rule probdist_prefix_sum [OF assms])
  also have "\<dots> = X 1.305 - X 0.005" by simp
  finally show ?thesis .
qed

lemma probdist_nonneg:
  assumes "mono X"
  shows "\<forall>p\<in>set (probdist X). 0 \<le> p"
proof -
  have "0 \<le> bin_mass X g" for g
    using monoD [OF assms, of "g - 0.005" "g + 0.005"]
    by (simp add: bin_mass_def)
  then show ?thesis by (auto simp: probdist_bin_mass)
qed

lemma nan_sum_numbers:
  assumes "length vs = length ps"
  shows "nan_sum (map2 (\<lambda>v p. nlift2 (*) v (Some p)) (map Some vs) ps)
       = Some (\<Sum>(v, p)\<leftarrow>zip vs ps. v * p)"
  using assms
  by (induction vs ps rule: list_induct2) (simp_all add: nan_sum_def)

lemma retained_bins:
  fixes X :: "real \<Rightarrow> real"
  defines "grid \<equiv> np_arange 0.01 1.31 0.01"
  defines "sf \<equiv> boolean_index grid (map (\<lambda>p. p > 0.00001) (probdist X))"
  defines "prob \<equiv> boolean_index (probdist X) (map (\<lambda>p. p > 0.00001) (probdist X))"
  shows "length sf = length prob"
    and "\<forall>i<length sf. sf ! i \<in> set grid \<and> prob ! i = bin_mass X (sf ! i) \<and> 0.00001 < prob ! i"
    and "\<forall>g\<in>set grid. bin_mass X g \<le> 0.00001 \<longrightarrow> g \<notin> set sf"
    and "\<forall>g\<in>set grid. 0.00001 < bin_mass X g \<longrightarrow> g \<in> set sf"
proof -
  have len: "length grid = length (probdist X)"
    by (simp add: grid_def probdist_bin_mass)
  have z: "zip sf prob = filter (\<lambda>(g, p). p > 0.00001) (zip grid (probdist X))"
    unfolding sf_def prob_def by (rule boolean_index_zip(1) [OF len])
  show l: "length sf = length prob"
    unfolding sf_def prob_def by (rule boolean_index_zip(2) [OF len])
  have zg: "zip grid (probdist X) = map (\<lambda>g. (g, bin_mass X g)) grid"
    by (simp add: probdist_bin_mass grid_def zip_map2 zip_same_conv_map)
  have mem: "(g, p) \<in> set (zip sf prob) \<longleftrightarrow> g \<in> set grid \<and> p = bin_mass X g \<and> 0.00001 < p"
    for g p
    unfolding z zg by auto
  show "\<forall>i<length sf. sf ! i \<in> set grid \<and> prob ! i = bin_mass X (sf ! i) \<and> 0.00001 < prob ! i"
  proof (intro allI impI)
    fix i assume "i < length sf"
    then have "(sf ! i, prob ! i) \<in> set (zip sf prob)"
      using l by (metis in_set_zip fst_conv snd_conv)
    then show "sf ! i \<in> set grid \<and> prob ! i = bin_mass X (sf ! i) \<and> 0.00001 < prob ! i"
      using mem by blast
  qed
  have sfset: "g \<in> set sf \<longleftrightarrow> (\<exists>p. (g, p) \<in> set (zip sf prob))" for g
    using l by (metis in_set_impl_in_set_zip1 set_zip_leftD)
  show "\<forall>g\<in>set grid. bin_mass X g \<le> 0.00001 \<longrightarrow> g \<notin> set sf"
    using sfset mem by fastforce
  show "\<forall>g\<in>set grid. 0.00001 < bin_mass X g \<longrightarrow> g \<in> set sf"
    using sfset mem by blast
qed


lemma sparing_factor_bins_unfold:
  "sparing_factor_bins X
     = (boolean_index (np_arange 0.01 1.31 0.01) (map (\<lambda>p. p > 0.00001) (probdist X)),
        boolean_index (probdist X) (map (\<lambda>p. p > 0.00001) (probdist X)))"
  by (simp add: sparing_factor_bins_def Let_def)

lemma future_values_prob_numbers:
  assumes "length vs = length prob"
  shows "future_values_prob [[map Some vs]] prob = [[Some (\<Sum>(v, p)\<leftarrow>zip vs prob. v * p)]]"
  by (simp add: future_values_prob_def nan_sum_numbers [OF assms])

lemma weighted_ones: "(\<Sum>(v, p)\<leftarrow>zip (replicate (length prob) 1) prob. v * p) = sum_list (prob :: real list)"
  by (induction prob) simp_all

text \<open>
  Claim C5. Let \<open>X\<close> be the distribution function of the belief (non-decreasing, with
  values in \<open>[0, 1]\<close>; a truncated normal is one), and \<open>(sf, prob)\<close> the bins that
  \<open>value_eval\<close> keeps. Then \<open>prob[i]\<close> is the difference of \<open>X\<close> over the bin of width
  \<open>0.01\<close> centred at the grid point \<open>sf[i]\<close> and exceeds \<open>0.00001\<close>; no grid point whose bin
  has mass \<open>0.00001\<close> or less is kept; the kept mass is at most the mass of all 130 bins,
  which is at most \<open>X(1.305) - X(0.005)\<close>, hence at most 1. The weights of the expectation
  \<open>(Values[index - 1] * prob).sum(axis = 2)\<close> are these probabilities as they are: a cell of
  numbers \<open>vs\<close> has expectation \<open>sum of vs[i] * prob[i]\<close>, so the constant \<open>1\<close> has
  expectation \<open>sum(prob)\<close>, the kept mass, and not \<open>1\<close>.
\<close>

theorem retained_bins_are_unnormalised_cdf_differences:
  assumes "mono X" "\<forall>x. 0 \<le> X x \<and> X x \<le> 1"
  shows "length (fst (sparing_factor_bins X)) = length (snd (sparing_factor_bins X))
     \<and> (\<forall>i<length (fst (sparing_factor_bins X)).
           fst (sparing_factor_bins X) ! i \<in> set (np_arange 0.01 1.31 0.01)
         \<and> snd (sparing_factor_bins X) ! i = bin_mass X (fst (sparing_factor_bins X) ! i)
         \<and> 0.00001 < snd (sparing_factor_bins X) ! i)
     \<and> (\<forall>g\<in>set (np_arange 0.01 1.31 0.01).
           bin_mass X g \<le> 0.00001 \<longrightarrow> g \<notin> set (fst (sparing_factor_bins X)))
     \<and> sum_list (snd (sparing_factor_bins X)) \<le> sum_list (probdist X)
     \<and> sum_list (probdist X) \<le> X 1.305 - X 0.005
     \<and> X 1.305 - X 0.005 \<le> 1
     \<and> (\<forall>vs. length vs = length (snd (sparing_factor_bins X)) \<longrightarrow>
           future_values_prob [[map Some vs]] (snd (sparing_factor_bins X))
             = [[Some (\<Sum>(v, p)\<leftarrow>zip vs (snd (sparing_factor_bins X)). v * p)]])
     \<and> future_values_prob
           [[map Some (replicate (length (snd (sparing_factor_bins X))) 1)]]
           (snd (sparing_factor_bins X))
         = [[Some (sum_list (snd (sparing_factor_bins X)))]]"
proof -
  define sf where "sf = fst (sparing_factor_bins X)"
  define prob where "prob = snd (sparing_factor_bins X)"
  have sf: "sf = boolean_index (np_arange 0.01 1.31 0.01) (map (\<lambda>p. p > 0.00001) (probdist X))"
    and prob: "prob = boolean_index (probdist X) (map (\<lambda>p. p > 0.00001) (probdist X))"
    by (simp_all add: sf_def prob_def sparing_factor_bins_unfold)
  have c1: "length sf = length prob"
    unfolding sf prob by (rule retained_bins(1))
  have c2: "\<forall>i<length sf. sf ! i \<in> set (np_arange 0.01 1.31 0.01)
              \<and> prob ! i = bin_mass X (sf ! i) \<and> 0.00001 < prob ! i"
    unfolding sf prob by (rule retained_bins(2))
  have c3: "\<forall>g\<in>set (np_arange 0.01 1.31 0.01). bin_mass X g \<le> 0.00001 \<longrightarrow> g \<notin> set sf"
    unfolding sf by (rule retained_bins(3))
  have c4: "sum_list prob \<le> sum_list (probdist X)"
    unfolding prob by (rule boolean_index_sum_le [OF probdist_nonneg [OF assms(1)]])
  have c5: "sum_list (probdist X) \<le> X 1.305 - X 0.005"
    by (rule probdist_total_mass [OF assms(1)])
  have c6: "X 1.305 - X 0.005 \<le> 1"
    using assms(2) by (smt (verit))
  have c7: "\<forall>vs. length vs = length prob \<longrightarrow>
           future_values_prob [[map Some vs]] prob = [[Some (\<Sum>(v, p)\<leftarrow>zip vs prob. v * p)]]"
    using future_values_prob_numbers by blast
  have c8: "future_values_prob [[map Some (replicate (length prob) 1)]] prob
         = [[Some (sum_list prob)]]"
    using future_values_prob_numbers [of "replicate (length prob) 1" prob]
    by (simp add: weighted_ones)
  show ?thesis
    using c1 c2 c3 c4 c5 c6 c7 c8 unfolding sf_def prob_def by blast
qed

text \<open>The theorem at the two-point distribution of the examples: its kept mass is at
  most \<open>1/2\<close>, and that, not \<open>1\<close>, is the expectation of the constant \<open>1\<close>.\<close>

theorem retained_bins_are_unnormalised_cdf_differences_witness:
  "length (fst (sparing_factor_bins (belief_cdf two_point_scipy [1] 1 1 0 0 0)))
     = length (snd (sparing_factor_bins (belief_cdf two_point_scipy [1] 1 1 0 0 0)))
   \<and> sum_list (snd (sparing_factor_bins (belief_cdf two_point_scipy [1] 1 1 0 0 0))) \<le> 1 / 2
   \<and> future_values_prob
        [[map Some (replicate
            (length (snd (sparing_factor_bins (belief_cdf two_point_scipy [1] 1 1 0 0 0)))) 1)]]
        (snd (sparing_factor_bins (belief_cdf two_point_scipy [1] 1 1 0 0 0)))
      = [[Some (sum_list (snd (sparing_factor_bins (belief_cdf two_point_scipy [1] 1 1 0 0 0))))]]"
proof -
  define X where "X = belief_cdf two_point_scipy [1] 1 1 0 0 0"
  have X: "X = (\<lambda>x. if x < 1 / 2 then 0 else if x < 2 then 1 / 2 else 1)"
    unfolding X_def by (rule two_point_belief_cdf)
  have m: "mono X" unfolding X by (rule monoI) auto
  have r: "\<forall>x. 0 \<le> X x \<and> X x \<le> 1" unfolding X by simp
  note th = retained_bins_are_unnormalised_cdf_differences [OF m r]
  have "X 1.305 - X 0.005 = 1 / 2" unfolding X by simp
  then have "sum_list (snd (sparing_factor_bins X)) \<le> 1 / 2"
    using th by linarith
  then show ?thesis
    using th unfolding X_def by blast
qed

section \<open>The action chosen for the current fraction\<close>

lemma nan_argmax_spec:
  assumes "None \<notin> set vs" "vs \<noteq> []"
  shows "nan_argmax vs < length vs"
    and "\<forall>j<length vs. the (vs ! j) \<le> the (vs ! nan_argmax vs)"
    and "\<forall>j<length vs. vs ! j = vs ! nan_argmax vs \<longrightarrow> nan_argmax vs \<le> j"
proof -
  have eq: "nan_argmax vs = np_argmax (map the vs)"
    using assms(1) by (simp add: nan_argmax_def)
  have ne: "map the vs \<noteq> []" using assms(2) by simp
  note sp = np_argmax_spec [OF ne]
  show l: "nan_argmax vs < length vs" using sp eq by simp
  show "\<forall>j<length vs. the (vs ! j) \<le> the (vs ! nan_argmax vs)"
    using sp l eq by simp
  show "\<forall>j<length vs. vs ! j = vs ! nan_argmax vs \<longrightarrow> nan_argmax vs \<le> j"
  proof (intro allI impI)
    fix j assume j: "j < length vs" and e: "vs ! j = vs ! nan_argmax vs"
    show "nan_argmax vs \<le> j"
    proof (rule ccontr)
      assume "\<not> nan_argmax vs \<le> j"
      then have jl: "j < np_argmax (map the vs)" using eq by simp
      then have "map the vs ! j < map the vs ! np_argmax (map the vs)"
        using sp by blast
      then show False using e j l eq by simp
    qed
  qed
qed

lemma build_actionspace_nth:
  assumes "0 < step" "afx_step_round A (mx - mn) step \<le> mx - mn"
  shows "length (build_actionspace A mn mx step)
           = Suc (nat \<lceil>afx_step_round A (mx - mn) step / step\<rceil>)"
    and "i < nat \<lceil>afx_step_round A (mx - mn) step / step\<rceil>
           \<Longrightarrow> build_actionspace A mn mx step ! i = mn + real i * step"
    and "i < nat \<lceil>afx_step_round A (mx - mn) step / step\<rceil>
           \<Longrightarrow> build_actionspace A mn mx step ! i < mx"
    and "build_actionspace A mn mx step ! nat \<lceil>afx_step_round A (mx - mn) step / step\<rceil> = mx"
proof -
  define d where "d = afx_step_round A (mx - mn) step"
  define n where "n = nat \<lceil>d / step\<rceil>"
  have b: "build_actionspace A mn mx step = map (\<lambda>i. mn + real i * step) [0..<n] @ [mx]"
    by (simp add: build_actionspace_def np_arange_def Let_def d_def n_def)
  show "length (build_actionspace A mn mx step)
           = Suc (nat \<lceil>afx_step_round A (mx - mn) step / step\<rceil>)"
    by (simp add: b n_def d_def)
  show "build_actionspace A mn mx step ! nat \<lceil>afx_step_round A (mx - mn) step / step\<rceil> = mx"
    unfolding b d_def [symmetric] n_def [symmetric] by (simp add: nth_append)
  {
    assume i: "i < nat \<lceil>afx_step_round A (mx - mn) step / step\<rceil>"
    then have i': "i < n" by (simp add: n_def d_def)
    show nth: "build_actionspace A mn mx step ! i = mn + real i * step"
      using i' by (simp add: b nth_append)
    have "int i < \<lceil>d / step\<rceil>" using i' by (simp add: n_def)
    then have "real i < d / step" by (simp add: less_ceiling_iff)
    then have "real i * step < d" using assms(1) by (simp add: field_simps)
    then have "mn + real i * step < mx" using assms(2) by (simp add: d_def)
    then show "build_actionspace A mn mx step ! i < mx" using nth by simp
  }
qed

lemma build_actionspace_ascending:
  assumes "0 < step" "afx_step_round A (mx - mn) step \<le> mx - mn"
    and "i < j" "j < length (build_actionspace A mn mx step)"
  shows "build_actionspace A mn mx step ! i < build_actionspace A mn mx step ! j"
proof -
  define n where "n = nat \<lceil>afx_step_round A (mx - mn) step / step\<rceil>"
  note f = build_actionspace_nth [OF assms(1,2), folded n_def]
  have jn: "j \<le> n" using assms(4) f(1) by simp
  then have il: "i < n" using assms(3) by simp
  show ?thesis
  proof (cases "j = n")
    case True
    then show ?thesis using f(3) [OF il] f(4) by simp
  next
    case False
    then have "j < n" using jn by simp
    then show ?thesis using f(2) [OF il] f(2) [of j] assms(1,3) by simp
  qed
qed

lemma length_oar_decision_vs:
  "length (oar_decision_vs C values fraction_index) = length (oc_actionspace C)"
  by (simp add: oar_decision_vs_def Let_def)


lemma value_step_decision:
  assumes "snd it - 1 = 1 \<or> (snd it - 1 = ctx_fraction C \<and> ctx_fraction C \<noteq> 5)"
  shows "snd (value_step C it st)
       = Some (Some (real (nan_argmax (decision_Vs C (fst st) (fst it)))))"
  using assms by (auto simp: value_step_def Let_def)

lemma oar_step_decision:
  assumes "snd it = k_fraction (oc_keys D)
         \<and> k_fraction (oc_keys D) \<noteq> k_number_of_fractions (oc_keys D)"
  shows "snd (oar_step D it st)
       = Some (oc_actionspace D ! nan_argmax (oar_decision_vs D (fst st) (fst it)))"
  using assms by (simp add: oar_step_def Let_def)

text \<open>
  Claim C9. In the branch of either solver that decides the current, non-final fraction,
  the chosen action is the first position of the largest value: no position has a larger
  value, and every position with the same value lies at or after it. In \<open>value_eval\<close> the
  policy is that position \<open>i\<close> and the dose \<open>i / 10\<close>; in \<open>min_oar_bed\<close> the dose is
  \<open>actionspace[i]\<close>, and the action space ascends (for a positive dose step and a
  \<open>step_round\<close> that rounds down), so among tied actions the lowest dose is chosen. The
  values are taken to be numbers: on an array holding NaN \<open>argmax\<close> answers the position of
  the first NaN instead.
\<close>

theorem ties_select_lowest_dose:
  assumes "snd it - 1 = 1 \<or> (snd it - 1 = ctx_fraction C \<and> ctx_fraction C \<noteq> 5)"
    and "None \<notin> set (decision_Vs C (fst st) (fst it))"
    and "decision_Vs C (fst st) (fst it) \<noteq> []"
    and "snd it' = k_fraction (oc_keys D)
         \<and> k_fraction (oc_keys D) \<noteq> k_number_of_fractions (oc_keys D)"
    and "None \<notin> set (oar_decision_vs D (fst st') (fst it'))"
    and "oc_actionspace D = build_actionspace (oc_helpers D) (oc_min_dose D) (oc_max_dose D)
           (s_dose_stepsize (oc_sets D))"
    and "0 < s_dose_stepsize (oc_sets D)"
    and "afx_step_round (oc_helpers D) (oc_max_dose D - oc_min_dose D)
           (s_dose_stepsize (oc_sets D)) \<le> oc_max_dose D - oc_min_dose D"
  shows "(\<exists>i<length (decision_Vs C (fst st) (fst it)).
            snd (value_step C it st) = Some (Some (real i))
          \<and> (\<forall>j<length (decision_Vs C (fst st) (fst it)).
                the (decision_Vs C (fst st) (fst it) ! j)
                  \<le> the (decision_Vs C (fst st) (fst it) ! i))
          \<and> (\<forall>j<length (decision_Vs C (fst st) (fst it)).
                decision_Vs C (fst st) (fst it) ! j = decision_Vs C (fst st) (fst it) ! i
                \<longrightarrow> i \<le> j \<and> real i / 10 \<le> real j / 10))
     \<and> (\<exists>i<length (oc_actionspace D).
            snd (oar_step D it' st') = Some (oc_actionspace D ! i)
          \<and> (\<forall>j<length (oc_actionspace D).
                the (oar_decision_vs D (fst st') (fst it') ! j)
                  \<le> the (oar_decision_vs D (fst st') (fst it') ! i))
          \<and> (\<forall>j<length (oc_actionspace D).
                oar_decision_vs D (fst st') (fst it') ! j
                  = oar_decision_vs D (fst st') (fst it') ! i
                \<longrightarrow> i \<le> j \<and> oc_actionspace D ! i \<le> oc_actionspace D ! j))"
proof (rule conjI)
  define vs where "vs = decision_Vs C (fst st) (fst it)"
  define i where "i = nan_argmax vs"
  note sp = nan_argmax_spec [OF assms(2,3), folded vs_def, folded i_def]
  have "snd (value_step C it st) = Some (Some (real i))"
    unfolding i_def vs_def by (rule value_step_decision [OF assms(1)])
  moreover have "\<forall>j<length vs. vs ! j = vs ! i \<longrightarrow> i \<le> j \<and> real i / 10 \<le> real j / 10"
    using sp(3) by simp
  ultimately show "\<exists>i<length (decision_Vs C (fst st) (fst it)).
            snd (value_step C it st) = Some (Some (real i))
          \<and> (\<forall>j<length (decision_Vs C (fst st) (fst it)).
                the (decision_Vs C (fst st) (fst it) ! j)
                  \<le> the (decision_Vs C (fst st) (fst it) ! i))
          \<and> (\<forall>j<length (decision_Vs C (fst st) (fst it)).
                decision_Vs C (fst st) (fst it) ! j = decision_Vs C (fst st) (fst it) ! i
                \<longrightarrow> i \<le> j \<and> real i / 10 \<le> real j / 10)"
    using sp(1,2) unfolding vs_def [symmetric] by blast
next
  define vs where "vs = oar_decision_vs D (fst st') (fst it')"
  define acts where "acts = oc_actionspace D"
  define i where "i = nan_argmax vs"
  have len: "length vs = length acts"
    by (simp add: vs_def acts_def length_oar_decision_vs)
  have acts: "acts = build_actionspace (oc_helpers D) (oc_min_dose D) (oc_max_dose D)
           (s_dose_stepsize (oc_sets D))"
    using assms(6) by (simp add: acts_def)
  have "acts \<noteq> []"
    unfolding acts by (simp add: build_actionspace_def Let_def)
  then have ne: "vs \<noteq> []" using len by auto
  have nn: "None \<notin> set vs" using assms(5) by (simp add: vs_def)
  note sp = nan_argmax_spec [OF nn ne, folded i_def]
  have asc: "acts ! a < acts ! b" if "a < b" "b < length acts" for a b
    unfolding acts
    by (rule build_actionspace_ascending [OF assms(7,8) that(1)]) (use that(2) acts in simp)
  have "snd (oar_step D it' st') = Some (acts ! i)"
    unfolding i_def vs_def acts_def by (rule oar_step_decision [OF assms(4)])
  moreover have "\<forall>j<length acts. vs ! j = vs ! i \<longrightarrow> i \<le> j \<and> acts ! i \<le> acts ! j"
  proof (intro allI impI)
    fix j assume j: "j < length acts" and e: "vs ! j = vs ! i"
    then have ij: "i \<le> j" using sp(3) len by simp
    then have "acts ! i \<le> acts ! j"
      using asc [of i j] j by (cases "i = j") auto
    then show "i \<le> j \<and> acts ! i \<le> acts ! j" using ij by simp
  qed
  ultimately show "\<exists>i<length (oc_actionspace D).
            snd (oar_step D it' st') = Some (oc_actionspace D ! i)
          \<and> (\<forall>j<length (oc_actionspace D).
                the (oar_decision_vs D (fst st') (fst it') ! j)
                  \<le> the (oar_decision_vs D (fst st') (fst it') ! i))
          \<and> (\<forall>j<length (oc_actionspace D).
                oar_decision_vs D (fst st') (fst it') ! j
                  = oar_decision_vs D (fst st') (fst it') ! i
                \<longrightarrow> i \<le> j \<and> oc_actionspace D ! i \<le> oc_actionspace D ! j)"
    using sp(1,2) len unfolding vs_def [symmetric] acts_def [symmetric] by auto
qed


lemma tied_actionspace: "build_actionspace rounding_afx 0 1 (1 / 2) = [0, 1 / 2, 1]"
proof -
  have "[0..<2] = [0, Suc 0]" by (simp add: upt_rec)
  then show ?thesis
    by (simp add: build_actionspace_def rounding_afx_def np_arange_def Let_def)
qed

lemma tied_decision_Vs:
  "decision_Vs tied_solve_context [[[[Some 0]]]] 1 = [Some 0, Some 0]"
  by (simp add: decision_Vs_def tied_solve_context_def Let_def)

lemma rounding_afx_interpolate: "afx_interpolate rounding_afx = (\<lambda>x xp fp. Some 0)"
  by (simp add: rounding_afx_def)

lemma tied_oar_decision_vs:
  "oar_decision_vs tied_oar_context [[[Some 0]]] 1 = [Some 0, Some 0, Some 0]"
  by (simp add: oar_decision_vs_def tied_oar_context_def tied_keys_def rounding_afx_interpolate
        tied_actionspace BED_calc0_def Let_def)

text \<open>The theorem at the two solver states of the examples, where all actions tie: both
  choose position \<open>0\<close>, the dose \<open>0\<close>.\<close>

theorem ties_select_lowest_dose_witness:
  "snd (value_step tied_solve_context (1, 5) ([[[[Some 0]]]], None)) = Some (Some 0)
     \<and> snd (oar_step tied_oar_context (1, 4) ([[[Some 0]]], Some 0)) = Some 0"
proof -
  have h1: "snd (1::nat, 5::int) - 1 = 1
      \<or> (snd (1::nat, 5::int) - 1 = ctx_fraction tied_solve_context
          \<and> ctx_fraction tied_solve_context \<noteq> 5)"
    by (simp add: tied_solve_context_def)
  have vs3: "decision_Vs tied_solve_context (fst ([[[[Some 0]]]], None :: npfloat option))
               (fst (1::nat, 5::int)) = [Some 0, Some 0]"
    using tied_decision_Vs by simp
  have h2: "None \<notin> set (decision_Vs tied_solve_context
               (fst ([[[[Some 0]]]], None :: npfloat option)) (fst (1::nat, 5::int)))"
    and h3: "decision_Vs tied_solve_context
               (fst ([[[[Some 0]]]], None :: npfloat option)) (fst (1::nat, 5::int)) \<noteq> []"
    unfolding vs3 by simp_all
  have h4: "snd (1::nat, 4::int) = k_fraction (oc_keys tied_oar_context)
      \<and> k_fraction (oc_keys tied_oar_context) \<noteq> k_number_of_fractions (oc_keys tied_oar_context)"
    by (simp add: tied_oar_context_def tied_keys_def)
  have vso: "oar_decision_vs tied_oar_context (fst ([[[Some 0]]], Some 0 :: npfloat))
               (fst (1::nat, 4::int)) = [Some 0, Some 0, Some 0]"
    using tied_oar_decision_vs by simp
  have h5: "None \<notin> set (oar_decision_vs tied_oar_context (fst ([[[Some 0]]], Some 0 :: npfloat))
               (fst (1::nat, 4::int)))"
    unfolding vso by simp
  have h6: "oc_actionspace tied_oar_context
      = build_actionspace (oc_helpers tied_oar_context) (oc_min_dose tied_oar_context)
          (oc_max_dose tied_oar_context) (s_dose_stepsize (oc_sets tied_oar_context))"
    by (simp add: tied_oar_context_def example_settings_def)
  have h7: "0 < s_dose_stepsize (oc_sets tied_oar_context)"
    by (simp add: tied_oar_context_def example_settings_def)
  have h8: "afx_step_round (oc_helpers tied_oar_context)
              (oc_max_dose tied_oar_context - oc_min_dose tied_oar_context)
              (s_dose_stepsize (oc_sets tied_oar_context))
          \<le> oc_max_dose tied_oar_context - oc_min_dose tied_oar_context"
    by (simp add: tied_oar_context_def example_settings_def rounding_afx_def)
  note th = ties_select_lowest_dose [OF h1 h2 h3 h4 h5 h6 h7 h8]
  have acts: "oc_actionspace tied_oar_context = [0, 1 / 2, 1]"
    by (simp add: tied_oar_context_def tied_actionspace)
  from th [THEN conjunct1, unfolded vs3] obtain i where i:
      "i < length [Some 0, Some 0 :: npfloat]"
      "snd (value_step tied_solve_context (1, 5) ([[[[Some 0]]]], None)) = Some (Some (real i))"
      "\<forall>j<length [Some 0, Some 0 :: npfloat].
          [Some 0, Some 0 :: npfloat] ! j = [Some 0, Some 0] ! i
          \<longrightarrow> i \<le> j \<and> real i / 10 \<le> real j / 10"
    by blast
  have "[Some 0, Some 0 :: npfloat] ! 0 = [Some 0, Some 0] ! i"
    using i(1) by (cases i) auto
  then have "i \<le> 0" using i(3) by (metis length_greater_0_conv list.distinct(1))
  then have i0: "i = 0" by simp
  from th [THEN conjunct2, unfolded vso acts] obtain k where k:
      "k < length [0, 1 / 2, 1 :: real]"
      "snd (oar_step tied_oar_context (1, 4) ([[[Some 0]]], Some 0)) = Some ([0, 1 / 2, 1] ! k)"
      "\<forall>j<length [0, 1 / 2, 1 :: real].
          [Some 0, Some 0, Some 0 :: npfloat] ! j = [Some 0, Some 0, Some 0] ! k
          \<longrightarrow> k \<le> j \<and> [0, 1 / 2, 1 :: real] ! k \<le> [0, 1 / 2, 1] ! j"
    by blast
  have "[Some 0, Some 0, Some 0 :: npfloat] ! 0 = [Some 0, Some 0, Some 0] ! k"
    using k(1) by (auto simp: less_Suc_eq)
  then have "k \<le> 0" using k(3) by (metis length_greater_0_conv list.distinct(1))
  then have k0: "k = 0" by simp
  show ?thesis using i(2) k(2) i0 k0 by simp
qed

section \<open>The action space and the last fraction of \<open>min_oar_bed\<close>\<close>

lemma min_oar_bed_last_fraction:
  assumes "k_fraction K = k_number_of_fractions K" "k_sparing_factors_public K \<noteq> []"
  shows "min_oar_bed A K Z
       = (case clamped_max_dose K of
            None \<Rightarrow> Inl ValueError
          | Some max_dose \<Rightarrow>
          (case shrunk_min_dose K Z of
            None \<Rightarrow> Inl ValueError
          | Some min_dose \<Rightarrow>
              if s_dose_stepsize Z = 0 \<or> s_state_stepsize Z = 0 then Inl ZeroDivisionError
              else Inr (last_fraction_dose K min_dose max_dose,
                        map_option (\<lambda>d. BED_calc0 d (k_abt K) 1)
                          (last_fraction_dose K min_dose max_dose),
                        map_option (\<lambda>d. BED_calc0 d (k_abn K) (last (k_sparing_factors_public K)))
                          (last_fraction_dose K min_dose max_dose))))"
  using assms
  by (simp add: min_oar_bed_def Let_def split_beta oar_step_def split: option.splits)

lemma convert_to_physical_number:
  assumes "0 < ab" "- ab / 4 \<le> bed"
  shows "convert_to_physical bed ab = Some (ab / 2 * (sqrt (1 + 4 * bed / ab) - 1))"
proof -
  have "0 \<le> 1 + 4 * bed / ab" using assms by (simp add: field_simps)
  then show ?thesis
    using assms(1) by (simp add: convert_to_physical_def closed_form_dose_def np_sqrt_def field_simps)
qed

lemma convert_to_physical_nan:
  assumes "0 < ab" "bed < - ab / 4"
  shows "convert_to_physical bed ab = None"
proof -
  have "1 + 4 * bed / ab < 0" using assms by (simp add: field_simps)
  then show ?thesis
    using assms(1) by (simp add: convert_to_physical_def closed_form_dose_def np_sqrt_def)
qed

lemma convert_to_physical_reaches:
  assumes "0 < ab" "convert_to_physical bed ab = Some d"
  shows "BED_calc0 d ab 1 = bed"
proof -
  have arg: "0 \<le> 1\<^sup>2 + 4 * 1\<^sup>2 * bed / ab"
    using assms by (auto simp: convert_to_physical_def closed_form_dose_def np_sqrt_def
        split: if_splits)
  then have d: "d = (- 1 + sqrt (1\<^sup>2 + 4 * 1\<^sup>2 * bed / ab)) / (2 * 1\<^sup>2 / ab)"
    using assms by (auto simp: convert_to_physical_def closed_form_dose_def np_sqrt_def
        split: if_splits)
  have "(1::real) \<noteq> 0" by simp
  from closed_form_dose_reaches [OF assms(1) this arg]
  show ?thesis unfolding d .
qed

lemma convert_to_physical_sign:
  assumes "0 < ab" "convert_to_physical bed ab = Some d"
  shows "0 \<le> bed \<Longrightarrow> 0 \<le> d" and "bed < 0 \<Longrightarrow> d < 0"
proof -
  have arg: "0 \<le> 1 + 4 * bed / ab"
    using assms by (auto simp: convert_to_physical_def closed_form_dose_def np_sqrt_def
        split: if_splits)
  then have lo: "- ab / 4 \<le> bed" using assms(1) by (simp add: field_simps)
  have d: "d = ab / 2 * (sqrt (1 + 4 * bed / ab) - 1)"
    using convert_to_physical_number [OF assms(1) lo] assms(2) by simp
  {
    assume "0 \<le> bed"
    then have "1 \<le> 1 + 4 * bed / ab" using assms(1) by simp
    then have "1 \<le> sqrt (1 + 4 * bed / ab)" by simp
    then show "0 \<le> d" using assms(1) by (simp add: d)
  }
  {
    assume "bed < 0"
    then have "1 + 4 * bed / ab < 1" using assms(1) by (simp add: field_simps)
    then have "sqrt (1 + 4 * bed / ab) < 1" using arg by simp
    then have "sqrt (1 + 4 * bed / ab) - 1 < 0" by simp
    then show "d < 0" using assms(1) unfolding d by (simp add: mult_pos_neg)
  }
qed

lemma clamped_max_dose_number:
  assumes "convert_to_physical (k_tumor_goal K - k_accumulated_tumor_dose K) (k_abt K) = Some c"
  shows "clamped_max_dose K = Some (if k_max_dose K = - 1 then c else min c (k_max_dose K))"
  using assms by (auto simp: clamped_max_dose_def Let_def)

lemma shrunk_min_dose_number:
  assumes "clamped_max_dose K = Some mx"
  shows "shrunk_min_dose K Z
       = Some (if mx < k_min_dose K then mx - s_dose_stepsize Z else k_min_dose K)"
  using assms by (simp add: shrunk_min_dose_def)

lemma last_fraction_dose_is_clamped_max:
  assumes "0 < s_dose_stepsize Z"
    and "convert_to_physical (k_tumor_goal K - k_accumulated_tumor_dose K) (k_abt K) = Some c"
    and "clamped_max_dose K = Some mx" "shrunk_min_dose K Z = Some mn"
  shows "last_fraction_dose K mn mx = Some mx" "mn \<le> mx" "mx \<le> c"
proof -
  have mx: "mx = (if k_max_dose K = - 1 then c else min c (k_max_dose K))"
    using clamped_max_dose_number [OF assms(2)] assms(3) by simp
  have mn: "mn = (if mx < k_min_dose K then mx - s_dose_stepsize Z else k_min_dose K)"
    using shrunk_min_dose_number [OF assms(3)] assms(4) by simp
  show le: "mx \<le> c" using mx by (auto split: if_splits)
  show ml: "mn \<le> mx" using mn assms(1) by (auto split: if_splits)
  show "last_fraction_dose K mn mx = Some mx"
    using le ml by (auto simp: last_fraction_dose_def assms(2) Let_def)
qed


lemma build_actionspace_bounds:
  assumes "0 < step" "afx_step_round A (mx - mn) step \<le> mx - mn" "mn \<le> mx"
  shows "\<forall>a\<in>set (build_actionspace A mn mx step). mn \<le> a \<and> a \<le> mx"
    and "last (build_actionspace A mn mx step) = mx"
proof -
  define n where "n = nat \<lceil>afx_step_round A (mx - mn) step / step\<rceil>"
  note f = build_actionspace_nth [OF assms(1,2), folded n_def]
  show "\<forall>a\<in>set (build_actionspace A mn mx step). mn \<le> a \<and> a \<le> mx"
  proof
    fix a assume "a \<in> set (build_actionspace A mn mx step)"
    then obtain i where i: "i < Suc n" "build_actionspace A mn mx step ! i = a"
      using f(1) by (metis in_set_conv_nth)
    show "mn \<le> a \<and> a \<le> mx"
    proof (cases "i = n")
      case True
      then show ?thesis using f(4) i(2) assms(3) by simp
    next
      case False
      then have il: "i < n" using i(1) by simp
      have "0 \<le> real i * step" using assms(1) by simp
      then show ?thesis using f(2) [OF il] f(3) [OF il] i(2) by simp
    qed
  qed
  show "last (build_actionspace A mn mx step) = mx"
    by (simp add: build_actionspace_def Let_def)
qed

text \<open>
  Claim C7. Let \<open>mx\<close> and \<open>mn\<close> be the bounds that \<open>min_oar_bed\<close> computes in lines 43 to 55
  and builds its action space from, with a positive dose step and a \<open>step_round\<close> that
  rounds down. Every action lies in \<open>[mn, mx]\<close> and the last one is \<open>mx\<close>. No action exceeds
  the dose \<open>p\<close> that \<open>convert_to_physical\<close> gives for the remaining budget
  \<open>tumor_goal - accumulated_tumor_dose\<close>, and \<open>p\<close> reaches that budget exactly at sparing
  factor 1 (for \<open>abt > 0\<close>); no action exceeds a configured \<open>max_dose\<close>; with the sentinel
  \<open>-1\<close> the maximum is \<open>p\<close> itself. If the configured \<open>min_dose\<close> exceeds \<open>mx\<close>, the
  minimum is \<open>mx - dose_stepsize\<close>, strictly below \<open>mx\<close>; otherwise it is \<open>min_dose\<close>.
\<close>

theorem actionspace_within_remaining_budget:
  assumes "0 < s_dose_stepsize Z"
    and "clamped_max_dose K = Some mx" "shrunk_min_dose K Z = Some mn"
    and "afx_step_round A (mx - mn) (s_dose_stepsize Z) \<le> mx - mn"
  shows "(\<forall>a\<in>set (build_actionspace A mn mx (s_dose_stepsize Z)). mn \<le> a \<and> a \<le> mx)
     \<and> last (build_actionspace A mn mx (s_dose_stepsize Z)) = mx
     \<and> (\<forall>p. convert_to_physical (k_tumor_goal K - k_accumulated_tumor_dose K) (k_abt K) = Some p
           \<longrightarrow> (\<forall>a\<in>set (build_actionspace A mn mx (s_dose_stepsize Z)). a \<le> p)
              \<and> (0 < k_abt K
                   \<longrightarrow> BED_calc0 p (k_abt K) 1 = k_tumor_goal K - k_accumulated_tumor_dose K))
     \<and> (k_max_dose K \<noteq> - 1
           \<longrightarrow> (\<forall>a\<in>set (build_actionspace A mn mx (s_dose_stepsize Z)). a \<le> k_max_dose K))
     \<and> (k_max_dose K = - 1
           \<longrightarrow> convert_to_physical (k_tumor_goal K - k_accumulated_tumor_dose K) (k_abt K)
                 = Some mx)
     \<and> (mx < k_min_dose K \<longrightarrow> mn = mx - s_dose_stepsize Z \<and> mn < mx)
     \<and> (\<not> mx < k_min_dose K \<longrightarrow> mn = k_min_dose K)"
proof -
  define acts where "acts = build_actionspace A mn mx (s_dose_stepsize Z)"
  define budget where
    "budget = convert_to_physical (k_tumor_goal K - k_accumulated_tumor_dose K) (k_abt K)"
  have mn: "mn = (if mx < k_min_dose K then mx - s_dose_stepsize Z else k_min_dose K)"
    using shrunk_min_dose_number [OF assms(2)] assms(3) by simp
  have le: "mn \<le> mx" using mn assms(1) by (auto split: if_splits)
  note b = build_actionspace_bounds [OF assms(1,4) le, folded acts_def]
  have c3: "(\<forall>a\<in>set acts. a \<le> p)
      \<and> (0 < k_abt K \<longrightarrow> BED_calc0 p (k_abt K) 1 = k_tumor_goal K - k_accumulated_tumor_dose K)"
    if p: "budget = Some p" for p
  proof -
    have "mx = (if k_max_dose K = - 1 then p else min p (k_max_dose K))"
      using clamped_max_dose_number [OF p [unfolded budget_def]] assms(2) by simp
    then have "mx \<le> p" by (auto split: if_splits)
    then have "\<forall>a\<in>set acts. a \<le> p" using b(1) by fastforce
    then show ?thesis
      using convert_to_physical_reaches [OF _ p [unfolded budget_def]] by blast
  qed
  have c4: "\<forall>a\<in>set acts. a \<le> k_max_dose K" if "k_max_dose K \<noteq> - 1"
  proof -
    have "mx \<le> k_max_dose K"
      using assms(2) that
      by (auto simp: clamped_max_dose_def Let_def nan_less_def split: if_splits option.splits)
    then show ?thesis using b(1) by fastforce
  qed
  have c5: "budget = Some mx" if "k_max_dose K = - 1"
    using assms(2) that by (simp add: clamped_max_dose_def Let_def budget_def)
  have c6: "mx < k_min_dose K \<longrightarrow> mn = mx - s_dose_stepsize Z \<and> mn < mx"
    using mn assms(1) by simp
  have c7: "\<not> mx < k_min_dose K \<longrightarrow> mn = k_min_dose K"
    using mn by simp
  show ?thesis
    using b c3 c4 c5 c6 c7 unfolding acts_def budget_def by blast
qed

lemma undershoot_budget: "convert_to_physical 3 4 = Some 2"
  by (simp add: convert_to_physical_def closed_form_dose_def np_sqrt_def)

lemma undershoot_bounds:
  "clamped_max_dose undershoot_keys = Some 2"
  "shrunk_min_dose undershoot_keys example_settings = Some (3 / 2)"
  by (simp_all add: clamped_max_dose_def shrunk_min_dose_def undershoot_keys_def
        example_settings_def undershoot_budget Let_def)

text \<open>The theorem at the undershooting last fraction of the examples: the budget dose is
  \<open>2\<close>, the maximum is clamped from \<open>10\<close> to \<open>2\<close>, the minimum \<open>3\<close> is lowered to \<open>3/2\<close>.\<close>

theorem actionspace_within_remaining_budget_witness:
  "clamped_max_dose undershoot_keys = Some 2
     \<and> shrunk_min_dose undershoot_keys example_settings = Some (3 / 2)
     \<and> last (build_actionspace rounding_afx (3 / 2) 2 (1 / 2)) = 2
     \<and> BED_calc0 2 4 1 = 3"
proof -
  have h1: "0 < s_dose_stepsize example_settings"
    by (simp add: example_settings_def)
  have h4: "afx_step_round rounding_afx (2 - 3 / 2) (s_dose_stepsize example_settings)
              \<le> 2 - 3 / 2"
    by (simp add: rounding_afx_def example_settings_def)
  note th = actionspace_within_remaining_budget [OF h1 undershoot_bounds h4]
  have step: "s_dose_stepsize example_settings = 1 / 2"
    by (simp add: example_settings_def)
  have b: "convert_to_physical (k_tumor_goal undershoot_keys
              - k_accumulated_tumor_dose undershoot_keys) (k_abt undershoot_keys) = Some 2"
    by (simp add: undershoot_keys_def undershoot_budget)
  have "0 < k_abt undershoot_keys" by (simp add: undershoot_keys_def)
  then have "BED_calc0 2 (k_abt undershoot_keys) 1
      = k_tumor_goal undershoot_keys - k_accumulated_tumor_dose undershoot_keys"
    using th b by blast
  then have "BED_calc0 2 4 1 = 3" by (simp add: undershoot_keys_def)
  moreover have "last (build_actionspace rounding_afx (3 / 2) 2 (1 / 2)) = 2"
    using th unfolding step by blast
  ultimately show ?thesis using undershoot_bounds by blast
qed





lemma undershoot_result:
  "min_oar_bed rounding_afx undershoot_keys example_settings
     = Inr (Some 2, Some 3, Some (10 / 3))"
proof -
  have f: "k_fraction undershoot_keys = k_number_of_fractions undershoot_keys"
    and h: "k_sparing_factors_public undershoot_keys \<noteq> []"
    by (simp_all add: undershoot_keys_def)
  have d: "last_fraction_dose undershoot_keys (3 / 2) 2 = Some 2"
    by (simp add: last_fraction_dose_def undershoot_keys_def undershoot_budget Let_def)
  show ?thesis
    unfolding min_oar_bed_last_fraction [OF f h] undershoot_bounds
    by (simp add: d) (simp add: undershoot_keys_def example_settings_def BED_calc0_def)
qed



lemma min_oar_bed_last_fraction_number:
  assumes "k_fraction K = k_number_of_fractions K" "k_sparing_factors_public K \<noteq> []"
    and "0 < s_dose_stepsize Z" "s_state_stepsize Z \<noteq> 0"
    and "convert_to_physical (k_tumor_goal K - k_accumulated_tumor_dose K) (k_abt K) = Some c"
  shows "min_oar_bed A K Z
       = (let d = (if k_max_dose K = - 1 then c else min c (k_max_dose K))
          in Inr (Some d, Some (BED_calc0 d (k_abt K) 1),
                  Some (BED_calc0 d (k_abn K) (last (k_sparing_factors_public K)))))"
proof -
  define mx where "mx = (if k_max_dose K = - 1 then c else min c (k_max_dose K))"
  define mn where "mn = (if mx < k_min_dose K then mx - s_dose_stepsize Z else k_min_dose K)"
  have a: "clamped_max_dose K = Some mx"
    unfolding mx_def by (rule clamped_max_dose_number [OF assms(5)])
  have b: "shrunk_min_dose K Z = Some mn"
    unfolding mn_def by (rule shrunk_min_dose_number [OF a])
  have d: "last_fraction_dose K mn mx = Some mx"
    by (rule last_fraction_dose_is_clamped_max(1) [OF assms(3,5) a b])
  have "min_oar_bed A K Z
       = Inr (Some mx, Some (BED_calc0 mx (k_abt K) 1),
              Some (BED_calc0 mx (k_abn K) (last (k_sparing_factors_public K))))"
    unfolding min_oar_bed_last_fraction [OF assms(1,2)] a b
    using assms(3,4) by (simp add: d)
  then show ?thesis
    unfolding mx_def Let_def .
qed

lemma final_action_not_over:
  assumes "0 < abt" "0 < abn" "sf_end \<noteq> 0" "BED_OAR \<le> bound_OAR" "BED_tumor \<le> bound_tumor"
  shows "\<exists>ct co. closed_form_dose 1 abt (bound_tumor - BED_tumor) = Some ct
       \<and> closed_form_dose sf_end abn (bound_OAR - BED_OAR) = Some co
       \<and> 0 \<le> ct \<and> 0 \<le> co
       \<and> BED_calc0 ct abt 1 = bound_tumor - BED_tumor
       \<and> BED_calc0 co abn sf_end = bound_OAR - BED_OAR
       \<and> final_action sf_end BED_OAR BED_tumor abt abn bound_OAR bound_tumor
           = (Some (if min co ct < 0 then 0 else min co ct), 0)"
proof -
  have rem: "0 \<le> bound_OAR - BED_OAR" "0 \<le> bound_tumor - BED_tumor"
    using assms by auto
  define co where "co = (- sf_end + sqrt (sf_end\<^sup>2 + 4 * sf_end\<^sup>2 * (bound_OAR - BED_OAR) / abn))
               / (2 * sf_end\<^sup>2 / abn)"
  define ct where "ct = (- 1 + sqrt (1\<^sup>2 + 4 * 1\<^sup>2 * (bound_tumor - BED_tumor) / abt))
               / (2 * 1\<^sup>2 / abt)"
  have one: "(1::real) \<noteq> 0" by simp
  have ao: "0 \<le> sf_end\<^sup>2 + 4 * sf_end\<^sup>2 * (bound_OAR - BED_OAR) / abn"
    by (rule nonneg_root_argument [OF assms(2) rem(1)])
  have at: "0 \<le> 1\<^sup>2 + 4 * 1\<^sup>2 * (bound_tumor - BED_tumor) / abt"
    by (rule nonneg_root_argument [OF assms(1) rem(2)])
  have o: "closed_form_dose sf_end abn (bound_OAR - BED_OAR) = Some co"
    unfolding co_def using assms ao by (intro closed_form_dose_number) auto
  have t: "closed_form_dose 1 abt (bound_tumor - BED_tumor) = Some ct"
    unfolding ct_def using assms at by (intro closed_form_dose_number) auto
  have "0 \<le> co" unfolding co_def by (rule closed_form_dose_nonneg [OF assms(2,3) rem(1)])
  moreover have "0 \<le> ct" unfolding ct_def by (rule closed_form_dose_nonneg [OF assms(1) one rem(2)])
  moreover have "BED_calc0 co abn sf_end = bound_OAR - BED_OAR"
    unfolding co_def by (rule closed_form_dose_reaches [OF assms(2,3) ao])
  moreover have "BED_calc0 ct abt 1 = bound_tumor - BED_tumor"
    unfolding ct_def by (rule closed_form_dose_reaches [OF assms(1) one at])
  moreover have "final_action sf_end BED_OAR BED_tumor abt abn bound_OAR bound_tumor
           = (Some (if min co ct < 0 then 0 else min co ct), 0)"
    using assms(4,5) by (simp add: final_action_def o t nan_min_def Let_def)
  ultimately show ?thesis using o t by blast
qed

lemma value_eval_returns_last_session:
  assumes "value_eval S 5 BED_OAR BED_tumor sparing_factors abt abn bound_OAR bound_tumor
             alpha beta fixed_prob fixed_mean fixed_std = Inr r"
  shows "sparing_factors \<noteq> []"
    and "r_physical_dose r
           = fst (final_action (last sparing_factors) BED_OAR BED_tumor abt abn bound_OAR
                    bound_tumor)"
    and "r_accumulated_tumor_dose r
           = map_option (\<lambda>x. BED_calc0 x abt 1 + BED_tumor) (r_physical_dose r)"
    and "r_accumulated_OAR_dose r
           = map_option (\<lambda>x. BED_calc0 x abn (last sparing_factors) + BED_OAR) (r_physical_dose r)"
    and "r_tumor_dose r = map_option (\<lambda>x. BED_calc0 x abt 1) (r_physical_dose r)"
    and "r_OAR_dose r = map_option (\<lambda>x. BED_calc0 x abn (last sparing_factors)) (r_physical_dose r)"
proof -
  have a: "\<not> (fixed_prob = 1 \<and> fixed_std = 0)"
    using assms by (auto simp: value_eval_def)
  show ne: "sparing_factors \<noteq> []"
    using assms a by (auto simp: value_eval_def split: if_splits)
  have b: "fst (sparing_factor_bins
                  (belief_cdf S sparing_factors alpha beta fixed_prob fixed_mean fixed_std)) \<noteq> []"
    using assms a ne by (auto simp: value_eval_def Let_def split_beta split: if_splits)
  note e = assms [unfolded value_eval_last_session [OF a ne b]]
  show "r_physical_dose r
           = fst (final_action (last sparing_factors) BED_OAR BED_tumor abt abn bound_OAR
                    bound_tumor)"
    using e by (auto simp: Let_def)
  show "r_accumulated_tumor_dose r
           = map_option (\<lambda>x. BED_calc0 x abt 1 + BED_tumor) (r_physical_dose r)"
    using e by (auto simp: Let_def)
  show "r_accumulated_OAR_dose r
           = map_option (\<lambda>x. BED_calc0 x abn (last sparing_factors) + BED_OAR) (r_physical_dose r)"
    using e by (auto simp: Let_def)
  show "r_tumor_dose r = map_option (\<lambda>x. BED_calc0 x abt 1) (r_physical_dose r)"
    using e by (auto simp: Let_def)
  show "r_OAR_dose r = map_option (\<lambda>x. BED_calc0 x abn (last sparing_factors)) (r_physical_dose r)"
    using e by (auto simp: Let_def)
qed

section \<open>The dose of the last session\<close>

text \<open>
  Claim C1, as the code has it. Let the alpha-beta ratios be positive and the accumulated
  doses not exceed their bounds on entry to the last session.

  \<open>min_oar_bed\<close> (positive dose step, non-zero state step): the closed-form dose \<open>c\<close> for the
  remaining tumor budget is a non-negative number, and the returned dose is \<open>c\<close> if
  \<open>max_dose\<close> is the sentinel \<open>-1\<close> and \<open>min(c, max_dose)\<close> otherwise. So the dose is \<open>c\<close> and
  \<open>accumulated_tumor_dose + bed(dose, abt) = tumor_goal\<close> whenever \<open>c\<close> does not overshoot
  \<open>max_dose\<close>, and the dose is \<open>max_dose\<close> when it does. The configured \<open>min_dose\<close> never
  raises the dose: when \<open>c\<close> undershoots it, lines 50 to 55 have lowered the minimum below
  the clamped maximum, and the returned dose stays below \<open>min_dose\<close>.

  \<open>value_eval\<close> (fraction 5, last sparing factor not zero): both closed-form doses are
  numbers, the returned dose is the smaller of the tumor-implied and the OAR-implied one,
  set to zero if negative, and no \<open>[min_dose, max_dose]\<close> is applied. If the tumor-implied
  dose is the smaller one, the accumulated tumor BED becomes \<open>bound_tumor\<close>; if the
  OAR-implied one is, the accumulated OAR BED becomes \<open>bound_OAR\<close>.
\<close>

theorem last_session_dose_reaches_goal_below_maximum:
  assumes "k_fraction K = k_number_of_fractions K" "k_sparing_factors_public K \<noteq> []"
    and "0 < k_abt K" "k_accumulated_tumor_dose K \<le> k_tumor_goal K"
    and "0 < s_dose_stepsize Z" "s_state_stepsize Z \<noteq> 0"
    and "0 < abt" "0 < abn" "last sparing_factors \<noteq> 0"
    and "BED_OAR \<le> bound_OAR" "BED_tumor \<le> bound_tumor"
    and "value_eval S 5 BED_OAR BED_tumor sparing_factors abt abn bound_OAR bound_tumor
           alpha beta fixed_prob fixed_mean fixed_std = Inr r"
  shows "(\<exists>c d. convert_to_physical (k_tumor_goal K - k_accumulated_tumor_dose K) (k_abt K) = Some c
            \<and> 0 \<le> c
            \<and> d = (if k_max_dose K = - 1 then c else min c (k_max_dose K))
            \<and> min_oar_bed A K Z
                = Inr (Some d, Some (BED_calc0 d (k_abt K) 1),
                       Some (BED_calc0 d (k_abn K) (last (k_sparing_factors_public K))))
            \<and> (k_max_dose K = - 1 \<or> c \<le> k_max_dose K
                 \<longrightarrow> d = c
                   \<and> k_accumulated_tumor_dose K + BED_calc0 d (k_abt K) 1 = k_tumor_goal K)
            \<and> (k_max_dose K \<noteq> - 1 \<and> k_max_dose K < c \<longrightarrow> d = k_max_dose K)
            \<and> (c < k_min_dose K \<longrightarrow> d < k_min_dose K))
     \<and> (\<exists>ct co. closed_form_dose 1 abt (bound_tumor - BED_tumor) = Some ct
            \<and> closed_form_dose (last sparing_factors) abn (bound_OAR - BED_OAR) = Some co
            \<and> r_physical_dose r = Some (if min co ct < 0 then 0 else min co ct)
            \<and> (ct \<le> co \<longrightarrow> r_physical_dose r = Some ct
                          \<and> r_accumulated_tumor_dose r = Some bound_tumor)
            \<and> (co \<le> ct \<longrightarrow> r_physical_dose r = Some co
                          \<and> r_accumulated_OAR_dose r = Some bound_OAR))"
proof (rule conjI)
  define rem where "rem = k_tumor_goal K - k_accumulated_tumor_dose K"
  have rem: "0 \<le> rem" using assms(4) by (simp add: rem_def)
  then have "- k_abt K / 4 \<le> rem" using assms(3) by simp
  from convert_to_physical_number [OF assms(3) this]
  obtain c where c: "convert_to_physical rem (k_abt K) = Some c" by blast
  have c0: "0 \<le> c" by (rule convert_to_physical_sign(1) [OF assms(3) c rem])
  have reach: "BED_calc0 c (k_abt K) 1 = rem" by (rule convert_to_physical_reaches [OF assms(3) c])
  define d where "d = (if k_max_dose K = - 1 then c else min c (k_max_dose K))"
  have res: "min_oar_bed A K Z
                = Inr (Some d, Some (BED_calc0 d (k_abt K) 1),
                       Some (BED_calc0 d (k_abn K) (last (k_sparing_factors_public K))))"
    using min_oar_bed_last_fraction_number [OF assms(1,2,5,6) c [unfolded rem_def]]
    by (simp add: d_def Let_def)
  have p1: "k_max_dose K = - 1 \<or> c \<le> k_max_dose K
                 \<longrightarrow> d = c
                   \<and> k_accumulated_tumor_dose K + BED_calc0 d (k_abt K) 1 = k_tumor_goal K"
    using reach by (auto simp: d_def rem_def)
  have p2: "k_max_dose K \<noteq> - 1 \<and> k_max_dose K < c \<longrightarrow> d = k_max_dose K"
    by (auto simp: d_def)
  have p3: "c < k_min_dose K \<longrightarrow> d < k_min_dose K"
    by (auto simp: d_def)
  show "\<exists>c d. convert_to_physical (k_tumor_goal K - k_accumulated_tumor_dose K) (k_abt K) = Some c
            \<and> 0 \<le> c
            \<and> d = (if k_max_dose K = - 1 then c else min c (k_max_dose K))
            \<and> min_oar_bed A K Z
                = Inr (Some d, Some (BED_calc0 d (k_abt K) 1),
                       Some (BED_calc0 d (k_abn K) (last (k_sparing_factors_public K))))
            \<and> (k_max_dose K = - 1 \<or> c \<le> k_max_dose K
                 \<longrightarrow> d = c
                   \<and> k_accumulated_tumor_dose K + BED_calc0 d (k_abt K) 1 = k_tumor_goal K)
            \<and> (k_max_dose K \<noteq> - 1 \<and> k_max_dose K < c \<longrightarrow> d = k_max_dose K)
            \<and> (c < k_min_dose K \<longrightarrow> d < k_min_dose K)"
    using c [unfolded rem_def] c0 res p1 p2 p3 d_def by blast
next
  note ev = value_eval_returns_last_session [OF assms(12)]
  from final_action_not_over [OF assms(7,8,9,10,11)]
  obtain ct co where f: "closed_form_dose 1 abt (bound_tumor - BED_tumor) = Some ct"
      "closed_form_dose (last sparing_factors) abn (bound_OAR - BED_OAR) = Some co"
      "0 \<le> ct" "0 \<le> co"
      "BED_calc0 ct abt 1 = bound_tumor - BED_tumor"
      "BED_calc0 co abn (last sparing_factors) = bound_OAR - BED_OAR"
      "final_action (last sparing_factors) BED_OAR BED_tumor abt abn bound_OAR bound_tumor
           = (Some (if min co ct < 0 then 0 else min co ct), 0)"
    by blast
  have dose: "r_physical_dose r = Some (if min co ct < 0 then 0 else min co ct)"
    using ev(2) f(7) by simp
  have t: "ct \<le> co \<longrightarrow> r_physical_dose r = Some ct
                          \<and> r_accumulated_tumor_dose r = Some bound_tumor"
    using dose f(3,5) ev(3) by (auto simp: min_def)
  have o: "co \<le> ct \<longrightarrow> r_physical_dose r = Some co
                          \<and> r_accumulated_OAR_dose r = Some bound_OAR"
    using dose f(4,6) ev(4) by (auto simp: min_def)
  show "\<exists>ct co. closed_form_dose 1 abt (bound_tumor - BED_tumor) = Some ct
            \<and> closed_form_dose (last sparing_factors) abn (bound_OAR - BED_OAR) = Some co
            \<and> r_physical_dose r = Some (if min co ct < 0 then 0 else min co ct)
            \<and> (ct \<le> co \<longrightarrow> r_physical_dose r = Some ct
                          \<and> r_accumulated_tumor_dose r = Some bound_tumor)
            \<and> (co \<le> ct \<longrightarrow> r_physical_dose r = Some co
                          \<and> r_accumulated_OAR_dose r = Some bound_OAR)"
    using f(1,2) dose t o by blast
qed

lemma sqrt_121: "sqrt 121 = 11"
  by (rule real_sqrt_unique) auto

lemma example_closed_forms:
  "closed_form_dose 1 4 3 = Some 2" "closed_form_dose 1 3 90 = Some 15"
  by (simp_all add: closed_form_dose_def np_sqrt_def sqrt_121)

text \<open>The theorem at a last fraction with tumor BED \<open>5\<close>, goal \<open>8\<close> and \<open>abt = 4\<close>, where the
  closed-form dose is \<open>2\<close>: in \<open>min_oar_bed\<close> with \<open>min_dose = 1\<close> and \<open>max_dose = 10\<close>, and in
  \<open>value_eval\<close> with an OAR far from its bound (OAR-implied dose \<open>15\<close>).\<close>

theorem last_session_dose_reaches_goal_below_maximum_witness:
  "min_oar_bed rounding_afx (undershoot_keys\<lparr>k_min_dose := 1\<rparr>) example_settings
      = Inr (Some 2, Some 3, Some (10 / 3))
   \<and> (\<exists>r. value_eval two_point_scipy 5 0 5 [1, 1] 4 3 90 8 1 1 0 0 0 = Inr r
          \<and> r_physical_dose r = Some 2 \<and> r_accumulated_tumor_dose r = Some 8)"
proof -
  define K where "K = undershoot_keys\<lparr>k_min_dose := 1\<rparr>"
  have ret: "\<exists>r. value_eval two_point_scipy 5 0 5 [1, 1] 4 3 90 8 1 1 0 0 0 = Inr r"
    using value_eval_last_session [of 0 0 "[1, 1]" two_point_scipy 1 1 0 0 5 4 3 90 8]
      two_point_bins_nonempty [of "[1, 1]" 1 1 0 0 0]
    by (simp add: Let_def)
  then obtain r where r: "value_eval two_point_scipy 5 0 5 [1, 1] 4 3 90 8 1 1 0 0 0 = Inr r"
    by blast
  have th: "(\<exists>c d. convert_to_physical (k_tumor_goal K - k_accumulated_tumor_dose K) (k_abt K) = Some c
            \<and> 0 \<le> c
            \<and> d = (if k_max_dose K = - 1 then c else min c (k_max_dose K))
            \<and> min_oar_bed rounding_afx K example_settings
                = Inr (Some d, Some (BED_calc0 d (k_abt K) 1),
                       Some (BED_calc0 d (k_abn K) (last (k_sparing_factors_public K))))
            \<and> (k_max_dose K = - 1 \<or> c \<le> k_max_dose K
                 \<longrightarrow> d = c
                   \<and> k_accumulated_tumor_dose K + BED_calc0 d (k_abt K) 1 = k_tumor_goal K)
            \<and> (k_max_dose K \<noteq> - 1 \<and> k_max_dose K < c \<longrightarrow> d = k_max_dose K)
            \<and> (c < k_min_dose K \<longrightarrow> d < k_min_dose K))
     \<and> (\<exists>ct co. closed_form_dose 1 4 (8 - 5) = Some ct
            \<and> closed_form_dose (last [1, 1]) 3 (90 - 0) = Some co
            \<and> r_physical_dose r = Some (if min co ct < 0 then 0 else min co ct)
            \<and> (ct \<le> co \<longrightarrow> r_physical_dose r = Some ct
                          \<and> r_accumulated_tumor_dose r = Some 8)
            \<and> (co \<le> ct \<longrightarrow> r_physical_dose r = Some co
                          \<and> r_accumulated_OAR_dose r = Some 90))"
    by (rule last_session_dose_reaches_goal_below_maximum [OF _ _ _ _ _ _ _ _ _ _ _ r])
      (simp_all add: K_def undershoot_keys_def example_settings_def)
  have b: "convert_to_physical (k_tumor_goal K - k_accumulated_tumor_dose K) (k_abt K) = Some 2"
    by (simp add: K_def undershoot_keys_def undershoot_budget)
  have m: "min_oar_bed rounding_afx K example_settings = Inr (Some 2, Some 3, Some (10 / 3))"
    using th [THEN conjunct1] unfolding b
    by (auto simp: K_def undershoot_keys_def BED_calc0_def)
  have v: "r_physical_dose r = Some 2 \<and> r_accumulated_tumor_dose r = Some 8"
    using th [THEN conjunct2] by (auto simp: example_closed_forms)
  show ?thesis using m v r unfolding K_def by blast
qed

text \<open>
  Claim C1 as written promises \<open>min_dose\<close> when the closed-form dose undershoots it. At the
  undershooting last fraction of the examples the closed-form dose is \<open>2\<close>, the configured
  range is \<open>[3, 10]\<close>, and \<open>min_oar_bed\<close> returns the dose \<open>2\<close>, not \<open>3\<close>.
\<close>

theorem undershoot_returns_closed_form_counterexample:
  "k_fraction undershoot_keys = k_number_of_fractions undershoot_keys
   \<and> k_accumulated_tumor_dose undershoot_keys \<le> k_tumor_goal undershoot_keys
   \<and> convert_to_physical (k_tumor_goal undershoot_keys - k_accumulated_tumor_dose undershoot_keys)
        (k_abt undershoot_keys) = Some 2
   \<and> 2 < k_min_dose undershoot_keys
   \<and> k_min_dose undershoot_keys \<le> k_max_dose undershoot_keys
   \<and> min_oar_bed rounding_afx undershoot_keys example_settings
        = Inr (Some 2, Some 3, Some (10 / 3))
   \<and> Some 2 \<noteq> Some (k_min_dose undershoot_keys)"
  using undershoot_result
  by (simp add: undershoot_keys_def undershoot_budget)







section \<open>The five sessions of \<open>whole_plan\<close>\<close>

lemma value_step_policy:
  assumes "snd st = None \<or> (\<exists>n. snd st = Some (Some (real n)))
         \<or> snd st = Some (map_option (\<lambda>a. a * 10)
              (fst (final_action (ctx_sf_end C) (ctx_BED_OAR C) (ctx_BED_tumor C)
                 (ctx_abt C) (ctx_abn C) (ctx_bound_OAR C) (ctx_bound_tumor C))))"
  shows "snd (value_step C it st) = None \<or> (\<exists>n. snd (value_step C it st) = Some (Some (real n)))
         \<or> snd (value_step C it st) = Some (map_option (\<lambda>a. a * 10)
              (fst (final_action (ctx_sf_end C) (ctx_BED_OAR C) (ctx_BED_tumor C)
                 (ctx_abt C) (ctx_abn C) (ctx_bound_OAR C) (ctx_bound_tumor C))))"
  using assms by (auto simp: value_step_def Let_def)

lemma value_loop_policy:
  assumes "snd st = None \<or> (\<exists>n. snd st = Some (Some (real n)))
         \<or> snd st = Some (map_option (\<lambda>a. a * 10)
              (fst (final_action (ctx_sf_end C) (ctx_BED_OAR C) (ctx_BED_tumor C)
                 (ctx_abt C) (ctx_abn C) (ctx_bound_OAR C) (ctx_bound_tumor C))))"
  shows "snd (value_loop C its st) = None
         \<or> (\<exists>n. snd (value_loop C its st) = Some (Some (real n)))
         \<or> snd (value_loop C its st) = Some (map_option (\<lambda>a. a * 10)
              (fst (final_action (ctx_sf_end C) (ctx_BED_OAR C) (ctx_BED_tumor C)
                 (ctx_abt C) (ctx_abn C) (ctx_bound_OAR C) (ctx_bound_tumor C))))"
  using assms
proof (induction its arbitrary: st)
  case Nil
  then show ?case by simp
next
  case (Cons it its)
  show ?case
    unfolding value_loop.simps
    by (rule Cons.IH) (rule value_step_policy [OF Cons.prems])
qed

lemma value_eval_result:
  assumes "value_eval S fraction BED_OAR BED_tumor sparing_factors abt abn bound_OAR bound_tumor
             alpha beta fixed_prob fixed_mean fixed_std = Inr r"
    and "0 < abt" "0 < abn" "last sparing_factors \<noteq> 0"
  shows "\<exists>d. 0 \<le> d \<and> r_physical_dose r = Some d
           \<and> r_tumor_dose r = Some (BED_calc0 d abt 1)
           \<and> r_OAR_dose r = Some (BED_calc0 d abn (last sparing_factors))
           \<and> r_accumulated_tumor_dose r = Some (BED_calc0 d abt 1 + BED_tumor)
           \<and> r_accumulated_OAR_dose r = Some (BED_calc0 d abn (last sparing_factors) + BED_OAR)"
proof -
  obtain sf prob where bins:
    "sparing_factor_bins
       (belief_cdf S sparing_factors alpha beta fixed_prob fixed_mean fixed_std) = (sf, prob)"
    by (cases "sparing_factor_bins
       (belief_cdf S sparing_factors alpha beta fixed_prob fixed_mean fixed_std)")
  define BEDT where "BEDT = np_arange BED_tumor bound_tumor 1 @ [bound_tumor, bound_tumor + 1]"
  define BEDNT where "BEDNT = np_arange BED_OAR bound_OAR 1 @ [bound_OAR, bound_OAR + 1]"
  define C where "C = \<lparr> ctx_fraction = fraction, ctx_BED_OAR = BED_OAR,
                       ctx_BED_tumor = BED_tumor, ctx_sf_end = last sparing_factors,
                       ctx_abt = abt, ctx_abn = abn, ctx_bound_OAR = bound_OAR,
                       ctx_bound_tumor = bound_tumor, ctx_sf = sf, ctx_prob = prob,
                       ctx_BEDT = BEDT, ctx_BEDNT = BEDNT,
                       ctx_OAR_dose = BED_calc_matrix (np_arange 0 22.3 0.1) abn sf,
                       ctx_tumor_dose = hd (BED_calc_matrix (np_arange 0 22.3 0.1) abt [1]),
                       ctx_actual_fraction_sf = argfind sf (np_round2 (last sparing_factors)),
                       ctx_interpolator = grid_interpolator S \<rparr>"
  define Values where "Values = replicate (nat (5 - fraction))
                       (replicate (length BEDT) (replicate (length BEDNT)
                          (replicate (length sf) (Some (0::real)))))"
  define pol where "pol = snd (value_loop C (map (\<lambda>i. (i, 6 - int i)) [0..<nat (6 - fraction)])
                                 (Values, None))"
  have ve: "value_eval S fraction BED_OAR BED_tumor sparing_factors abt abn bound_OAR
             bound_tumor alpha beta fixed_prob fixed_mean fixed_std
      = (if fixed_prob = 1 \<and> fixed_std = 0 then Inl ZeroDivisionError
         else if 5 - fraction < 0 then Inl ValueError
         else if sparing_factors = [] then Inl IndexError
         else if sf = [] then Inl ValueError
         else case pol of
                None \<Rightarrow> Inl UnboundLocalError
              | Some actual_policy \<Rightarrow>
                  Inr \<lparr> r_physical_dose = map_option (\<lambda>p. p / 10) actual_policy,
                        r_accumulated_tumor_dose =
                          map_option (\<lambda>p. BED_calc0 (p / 10) abt 1 + BED_tumor) actual_policy,
                        r_accumulated_OAR_dose =
                          map_option (\<lambda>p. BED_calc0 (p / 10) abn (last sparing_factors) + BED_OAR)
                            actual_policy,
                        r_tumor_dose = map_option (\<lambda>p. BED_calc0 (p / 10) abt 1) actual_policy,
                        r_OAR_dose =
                          map_option (\<lambda>p. BED_calc0 (p / 10) abn (last sparing_factors))
                            actual_policy \<rparr>)"
    unfolding value_eval_def Let_def bins prod.case pol_def C_def Values_def BEDT_def BEDNT_def ..
  obtain actual_policy where ap: "pol = Some actual_policy"
    using assms(1) unfolding ve by (cases pol) (auto split: if_splits)
  have r: "r = \<lparr> r_physical_dose = map_option (\<lambda>p. p / 10) actual_policy,
            r_accumulated_tumor_dose =
              map_option (\<lambda>p. BED_calc0 (p / 10) abt 1 + BED_tumor) actual_policy,
            r_accumulated_OAR_dose =
              map_option (\<lambda>p. BED_calc0 (p / 10) abn (last sparing_factors) + BED_OAR)
                actual_policy,
            r_tumor_dose = map_option (\<lambda>p. BED_calc0 (p / 10) abt 1) actual_policy,
            r_OAR_dose = map_option (\<lambda>p. BED_calc0 (p / 10) abn (last sparing_factors))
                actual_policy \<rparr>"
    using assms(1) unfolding ve ap by (auto split: if_splits)
  have sel: "ctx_sf_end C = last sparing_factors" "ctx_BED_OAR C = BED_OAR"
      "ctx_BED_tumor C = BED_tumor" "ctx_abt C = abt" "ctx_abn C = abn"
      "ctx_bound_OAR C = bound_OAR" "ctx_bound_tumor C = bound_tumor"
    by (simp_all add: C_def)
  have "snd (Values, None :: npfloat option) = None \<or> (\<exists>n. snd (Values, None) = Some (Some (real n)))
         \<or> snd (Values, None) = Some (map_option (\<lambda>a. a * 10)
              (fst (final_action (ctx_sf_end C) (ctx_BED_OAR C) (ctx_BED_tumor C)
                 (ctx_abt C) (ctx_abn C) (ctx_bound_OAR C) (ctx_bound_tumor C))))"
    by simp
  from value_loop_policy [OF this, of "map (\<lambda>i. (i, 6 - int i)) [0..<nat (6 - fraction)]"]
  have "pol = None \<or> (\<exists>n. pol = Some (Some (real n)))
         \<or> pol = Some (map_option (\<lambda>a. a * 10)
              (fst (final_action (last sparing_factors) BED_OAR BED_tumor abt abn bound_OAR
                      bound_tumor)))"
    unfolding pol_def sel .
  then have cases: "(\<exists>n. actual_policy = Some (real n))
      \<or> actual_policy = map_option (\<lambda>a. a * 10)
           (fst (final_action (last sparing_factors) BED_OAR BED_tumor abt abn bound_OAR
                   bound_tumor))"
    unfolding ap by auto
  from final_action_number [OF assms(2,3,4), of BED_OAR BED_tumor bound_OAR bound_tumor]
  obtain d0 where d0: "fst (final_action (last sparing_factors) BED_OAR BED_tumor abt abn
       bound_OAR bound_tumor) = Some d0" "0 \<le> d0" by blast
  from cases obtain p where p: "actual_policy = Some p" "0 \<le> p"
    using d0 by auto
  show ?thesis
    using r p by (intro exI [of _ "p / 10"]) simp
qed


lemma whole_plan_loop_snoc:
  "whole_plan_loop S P (xs @ [x]) st
     = (case whole_plan_loop S P xs st of
          Inl e \<Rightarrow> Inl e
        | Inr st' \<Rightarrow> whole_plan_step S P x st')"
  by (induction xs arbitrary: st) (auto split: sum.splits)

lemma whole_plan_after_Suc:
  "whole_plan_after S P (Suc k)
     = (case whole_plan_after S P k of
          Inl e \<Rightarrow> Inl e
        | Inr st \<Rightarrow> whole_plan_step S P k st)"
  by (simp add: whole_plan_after_def whole_plan_loop_snoc)

lemma whole_plan_after_prefix:
  assumes "whole_plan_after S P n = Inr st" "k \<le> n"
  shows "\<exists>st'. whole_plan_after S P k = Inr st'"
  using assms
proof (induction n arbitrary: st)
  case 0
  then show ?case by simp
next
  case (Suc n)
  show ?case
  proof (cases "k = Suc n")
    case True
    then show ?thesis using Suc.prems by blast
  next
    case False
    then have kn: "k \<le> n" using Suc.prems by simp
    obtain st0 where "whole_plan_after S P n = Inr st0"
      using Suc.prems(1) unfolding whole_plan_after_Suc by (auto split: sum.splits)
    from Suc.IH [OF this kn] show ?thesis .
  qed
qed

lemma whole_plan_step_result:
  assumes "0 < pa_abt P" "0 < pa_abn P" "\<forall>s\<in>set (pa_sparing_factors P). 0 < s"
    and "k + 1 < length (pa_sparing_factors P)"
    and "carried_tumor_dose st = Some t" "carried_OAR_dose st = Some oar"
    and "whole_plan_step S P k st = Inr st'"
  shows "\<exists>d. 0 \<le> d
      \<and> physical_doses st' = (physical_doses st)[k := Some d]
      \<and> tumor_doses st' = (tumor_doses st)[k := Some (BED_calc0 d (pa_abt P) 1)]
      \<and> OAR_doses st'
          = (OAR_doses st)[k := Some (BED_calc0 d (pa_abn P) (pa_sparing_factors P ! (k + 1)))]
      \<and> carried_tumor_dose st' = Some (BED_calc0 d (pa_abt P) 1 + t)
      \<and> carried_OAR_dose st'
          = Some (BED_calc0 d (pa_abn P) (pa_sparing_factors P ! (k + 1)) + oar)"
proof -
  define sfs where "sfs = take (k + 2) (pa_sparing_factors P)"
  have ne: "sfs \<noteq> []" using assms(4) by (auto simp: sfs_def)
  have "length sfs = k + 2" using assms(4) by (simp add: sfs_def)
  then have "last sfs = sfs ! (k + 1)" using ne by (simp add: last_conv_nth)
  then have l: "last sfs = pa_sparing_factors P ! (k + 1)" by (simp add: sfs_def)
  have "pa_sparing_factors P ! (k + 1) \<in> set (pa_sparing_factors P)"
    using assms(4) by simp
  then have pos: "last sfs \<noteq> 0" using assms(3) l by fastforce
  obtain r where r: "value_eval S (int k + 1) oar t sfs (pa_abt P) (pa_abn P) (pa_bound_OAR P)
      (pa_bound_tumor P) (pa_alpha P) (pa_beta P) (pa_fixed_prob P) (pa_fixed_mean P)
      (pa_std_fixed P) = Inr r"
    and st': "st' = st\<lparr> physical_doses := (physical_doses st)[k := r_physical_dose r],
                   tumor_doses := (tumor_doses st)[k := r_tumor_dose r],
                   OAR_doses := (OAR_doses st)[k := r_OAR_dose r],
                   carried_OAR_dose := r_accumulated_OAR_dose r,
                   carried_tumor_dose := r_accumulated_tumor_dose r \<rparr>"
    using assms(7) unfolding whole_plan_step_def assms(5,6) sfs_def [symmetric]
    by (auto split: sum.splits)
  from value_eval_result [OF r assms(1,2) pos]
  obtain d where d: "0 \<le> d" "r_physical_dose r = Some d"
      "r_tumor_dose r = Some (BED_calc0 d (pa_abt P) 1)"
      "r_OAR_dose r = Some (BED_calc0 d (pa_abn P) (last sfs))"
      "r_accumulated_tumor_dose r = Some (BED_calc0 d (pa_abt P) 1 + t)"
      "r_accumulated_OAR_dose r = Some (BED_calc0 d (pa_abn P) (last sfs) + oar)"
    by blast
  show ?thesis
    using d unfolding st' l by (intro exI [of _ d]) simp
qed


lemma whole_plan_after_invariant:
  assumes "0 < pa_abt P" "0 < pa_abn P" "\<forall>s\<in>set (pa_sparing_factors P). 0 < s"
    and "6 \<le> length (pa_sparing_factors P)"
    and "n \<le> 5" "whole_plan_after S P n = Inr st"
  shows "length (physical_doses st) = 5 \<and> length (tumor_doses st) = 5
     \<and> length (OAR_doses st) = 5
     \<and> (\<exists>t oar. carried_tumor_dose st = Some t \<and> carried_OAR_dose st = Some oar)
     \<and> (\<forall>i<n. \<exists>a b t oar d.
            whole_plan_after S P i = Inr a \<and> whole_plan_after S P (Suc i) = Inr b
          \<and> carried_tumor_dose a = Some t \<and> carried_OAR_dose a = Some oar
          \<and> 0 \<le> d \<and> physical_doses st ! i = Some d
          \<and> tumor_doses st ! i = Some (BED_calc0 d (pa_abt P) 1)
          \<and> OAR_doses st ! i = Some (BED_calc0 d (pa_abn P) (pa_sparing_factors P ! (i + 1)))
          \<and> carried_tumor_dose b = Some (BED_calc0 d (pa_abt P) 1 + t)
          \<and> carried_OAR_dose b
              = Some (BED_calc0 d (pa_abn P) (pa_sparing_factors P ! (i + 1)) + oar))"
  using assms(5,6)
proof (induction n arbitrary: st)
  case 0
  then have "st = plan_start" by (simp add: whole_plan_after_def)
  then show ?case by (simp add: plan_start_def)
next
  case (Suc n)
  obtain st0 where st0: "whole_plan_after S P n = Inr st0"
    and step: "whole_plan_step S P n st0 = Inr st"
    using Suc.prems(2) unfolding whole_plan_after_Suc by (auto split: sum.splits)
  have n5: "n \<le> 5" using Suc.prems(1) by simp
  note ih = Suc.IH [OF n5 st0]
  obtain t oar where c: "carried_tumor_dose st0 = Some t" "carried_OAR_dose st0 = Some oar"
    using ih by blast
  have idx: "n + 1 < length (pa_sparing_factors P)" using Suc.prems(1) assms(4) by simp
  from whole_plan_step_result [OF assms(1,2,3) idx c step]
  obtain d where d: "0 \<le> d"
      "physical_doses st = (physical_doses st0)[n := Some d]"
      "tumor_doses st = (tumor_doses st0)[n := Some (BED_calc0 d (pa_abt P) 1)]"
      "OAR_doses st
          = (OAR_doses st0)[n := Some (BED_calc0 d (pa_abn P) (pa_sparing_factors P ! (n + 1)))]"
      "carried_tumor_dose st = Some (BED_calc0 d (pa_abt P) 1 + t)"
      "carried_OAR_dose st
          = Some (BED_calc0 d (pa_abn P) (pa_sparing_factors P ! (n + 1)) + oar)"
    by blast
  have len: "length (physical_doses st) = 5 \<and> length (tumor_doses st) = 5
     \<and> length (OAR_doses st) = 5"
    using ih d(2,3,4) by simp
  have n4: "n < 5" using Suc.prems(1) by simp
  have rec: "\<exists>a b t oar d.
            whole_plan_after S P i = Inr a \<and> whole_plan_after S P (Suc i) = Inr b
          \<and> carried_tumor_dose a = Some t \<and> carried_OAR_dose a = Some oar
          \<and> 0 \<le> d \<and> physical_doses st ! i = Some d
          \<and> tumor_doses st ! i = Some (BED_calc0 d (pa_abt P) 1)
          \<and> OAR_doses st ! i = Some (BED_calc0 d (pa_abn P) (pa_sparing_factors P ! (i + 1)))
          \<and> carried_tumor_dose b = Some (BED_calc0 d (pa_abt P) 1 + t)
          \<and> carried_OAR_dose b
              = Some (BED_calc0 d (pa_abn P) (pa_sparing_factors P ! (i + 1)) + oar)"
    if "i < Suc n" for i
  proof (cases "i = n")
    case True
    have "physical_doses st ! n = Some d"
      "tumor_doses st ! n = Some (BED_calc0 d (pa_abt P) 1)"
      "OAR_doses st ! n = Some (BED_calc0 d (pa_abn P) (pa_sparing_factors P ! (n + 1)))"
      using ih n4 d(2,3,4) by simp_all
    then show ?thesis
      unfolding True using st0 Suc.prems(2) c d(1,5,6) by blast
  next
    case False
    then have i: "i < n" using that by simp
    from ih i obtain a b t' oar' d' where old:
        "whole_plan_after S P i = Inr a" "whole_plan_after S P (Suc i) = Inr b"
        "carried_tumor_dose a = Some t'" "carried_OAR_dose a = Some oar'"
        "0 \<le> d'" "physical_doses st0 ! i = Some d'"
        "tumor_doses st0 ! i = Some (BED_calc0 d' (pa_abt P) 1)"
        "OAR_doses st0 ! i = Some (BED_calc0 d' (pa_abn P) (pa_sparing_factors P ! (i + 1)))"
        "carried_tumor_dose b = Some (BED_calc0 d' (pa_abt P) 1 + t')"
        "carried_OAR_dose b
              = Some (BED_calc0 d' (pa_abn P) (pa_sparing_factors P ! (i + 1)) + oar')"
      by blast
    have "physical_doses st ! i = physical_doses st0 ! i"
      "tumor_doses st ! i = tumor_doses st0 ! i" "OAR_doses st ! i = OAR_doses st0 ! i"
      using False d(2,3,4) by simp_all
    then show ?thesis using old by force
  qed
  show ?case using len d(5,6) rec by blast
qed


lemma value_loop_snoc:
  "value_loop C (its @ [it]) st = value_step C it (value_loop C its st)"
  by (induction its arbitrary: st) simp_all

lemma value_step_sets_policy:
  assumes "snd it - 1 = ctx_fraction C"
  shows "snd (value_step C it st) \<noteq> None"
  using assms by (simp add: value_step_def Let_def)

lemma value_eval_returns:
  assumes "\<not> (fixed_prob = 1 \<and> fixed_std = 0)" "fraction \<le> 5" "sparing_factors \<noteq> []"
    and "fst (sparing_factor_bins
                (belief_cdf S sparing_factors alpha beta fixed_prob fixed_mean fixed_std)) \<noteq> []"
  shows "\<exists>r. value_eval S fraction BED_OAR BED_tumor sparing_factors abt abn bound_OAR
                bound_tumor alpha beta fixed_prob fixed_mean fixed_std = Inr r"
proof -
  obtain sf prob where bins:
    "sparing_factor_bins
       (belief_cdf S sparing_factors alpha beta fixed_prob fixed_mean fixed_std) = (sf, prob)"
    by (cases "sparing_factor_bins
       (belief_cdf S sparing_factors alpha beta fixed_prob fixed_mean fixed_std)")
  have sf: "sf \<noteq> []" using assms(4) bins by simp
  define BEDT where "BEDT = np_arange BED_tumor bound_tumor 1 @ [bound_tumor, bound_tumor + 1]"
  define BEDNT where "BEDNT = np_arange BED_OAR bound_OAR 1 @ [bound_OAR, bound_OAR + 1]"
  define C where "C = \<lparr> ctx_fraction = fraction, ctx_BED_OAR = BED_OAR,
                       ctx_BED_tumor = BED_tumor, ctx_sf_end = last sparing_factors,
                       ctx_abt = abt, ctx_abn = abn, ctx_bound_OAR = bound_OAR,
                       ctx_bound_tumor = bound_tumor, ctx_sf = sf, ctx_prob = prob,
                       ctx_BEDT = BEDT, ctx_BEDNT = BEDNT,
                       ctx_OAR_dose = BED_calc_matrix (np_arange 0 22.3 0.1) abn sf,
                       ctx_tumor_dose = hd (BED_calc_matrix (np_arange 0 22.3 0.1) abt [1]),
                       ctx_actual_fraction_sf = argfind sf (np_round2 (last sparing_factors)),
                       ctx_interpolator = grid_interpolator S \<rparr>"
  define Values where "Values = replicate (nat (5 - fraction))
                       (replicate (length BEDT) (replicate (length BEDNT)
                          (replicate (length sf) (Some (0::real)))))"
  define pol where "pol = snd (value_loop C (map (\<lambda>i. (i, 6 - int i)) [0..<nat (6 - fraction)])
                                 (Values, None))"
  have ve: "value_eval S fraction BED_OAR BED_tumor sparing_factors abt abn bound_OAR
             bound_tumor alpha beta fixed_prob fixed_mean fixed_std
      = (if fixed_prob = 1 \<and> fixed_std = 0 then Inl ZeroDivisionError
         else if 5 - fraction < 0 then Inl ValueError
         else if sparing_factors = [] then Inl IndexError
         else if sf = [] then Inl ValueError
         else case pol of
                None \<Rightarrow> Inl UnboundLocalError
              | Some actual_policy \<Rightarrow>
                  Inr \<lparr> r_physical_dose = map_option (\<lambda>p. p / 10) actual_policy,
                        r_accumulated_tumor_dose =
                          map_option (\<lambda>p. BED_calc0 (p / 10) abt 1 + BED_tumor) actual_policy,
                        r_accumulated_OAR_dose =
                          map_option (\<lambda>p. BED_calc0 (p / 10) abn (last sparing_factors) + BED_OAR)
                            actual_policy,
                        r_tumor_dose = map_option (\<lambda>p. BED_calc0 (p / 10) abt 1) actual_policy,
                        r_OAR_dose =
                          map_option (\<lambda>p. BED_calc0 (p / 10) abn (last sparing_factors))
                            actual_policy \<rparr>)"
    unfolding value_eval_def Let_def bins prod.case pol_def C_def Values_def BEDT_def BEDNT_def ..
  define m where "m = nat (5 - fraction)"
  have n: "nat (6 - fraction) = Suc m" using assms(2) by (simp add: m_def)
  have last_it: "6 - int m - 1 = fraction" using assms(2) by (simp add: m_def)
  have "map (\<lambda>i. (i, 6 - int i)) [0..<nat (6 - fraction)]
      = map (\<lambda>i. (i, 6 - int i)) [0..<m] @ [(m, 6 - int m)]"
    unfolding n by simp
  then have "pol = snd (value_step C (m, 6 - int m)
                     (value_loop C (map (\<lambda>i. (i, 6 - int i)) [0..<m]) (Values, None)))"
    unfolding pol_def by (simp only: value_loop_snoc)
  moreover have "snd (m, 6 - int m) - 1 = ctx_fraction C"
    using last_it by (simp add: C_def)
  ultimately have "pol \<noteq> None"
    using value_step_sets_policy by metis
  then obtain ap where "pol = Some ap" by blast
  then show ?thesis
    unfolding ve using assms(1,2,3) sf by simp
qed

lemma whole_plan_after_returns:
  assumes "0 < pa_abt P" "0 < pa_abn P" "\<forall>s\<in>set (pa_sparing_factors P). 0 < s"
    and "6 \<le> length (pa_sparing_factors P)"
    and "\<not> (pa_fixed_prob P = 1 \<and> pa_std_fixed P = 0)"
    and "\<forall>k<5. fst (sparing_factor_bins
                  (belief_cdf S (take (k + 2) (pa_sparing_factors P)) (pa_alpha P) (pa_beta P)
                     (pa_fixed_prob P) (pa_fixed_mean P) (pa_std_fixed P))) \<noteq> []"
    and "n \<le> 5"
  shows "\<exists>st. whole_plan_after S P n = Inr st"
  using assms(7)
proof (induction n)
  case 0
  show ?case by (simp add: whole_plan_after_def)
next
  case (Suc n)
  then have n5: "n \<le> 5" and n4: "n < 5" by simp_all
  from Suc.IH [OF n5] obtain st where st: "whole_plan_after S P n = Inr st" by blast
  from whole_plan_after_invariant [OF assms(1,2,3,4) n5 st]
  obtain t oar where c: "carried_tumor_dose st = Some t" "carried_OAR_dose st = Some oar"
    by blast
  have ne: "take (n + 2) (pa_sparing_factors P) \<noteq> []"
    using assms(4) by auto
  have bins: "fst (sparing_factor_bins
                  (belief_cdf S (take (n + 2) (pa_sparing_factors P)) (pa_alpha P) (pa_beta P)
                     (pa_fixed_prob P) (pa_fixed_mean P) (pa_std_fixed P))) \<noteq> []"
    using assms(6) n4 by blast
  have fr: "int n + 1 \<le> 5" using n4 by simp
  from value_eval_returns [OF assms(5) fr ne bins]
  obtain r where "value_eval S (int n + 1) oar t (take (n + 2) (pa_sparing_factors P))
      (pa_abt P) (pa_abn P) (pa_bound_OAR P) (pa_bound_tumor P) (pa_alpha P) (pa_beta P)
      (pa_fixed_prob P) (pa_fixed_mean P) (pa_std_fixed P) = Inr r"
    by blast
  then show ?case
    unfolding whole_plan_after_Suc st by (simp add: whole_plan_step_def c)
qed


text \<open>
  Claim C4. For positive \<open>abt\<close> and \<open>abn\<close>, at least six positive sparing factors (the
  planning scan and one observation per session), a belief that is not the fixed
  distribution with deviation \<open>0\<close> and keeps at least one sparing-factor bin in each of the
  five calls, \<open>whole_plan\<close> returns three arrays of exactly five entries. For each session
  \<open>i\<close> the physical dose is a number \<open>d \<ge> 0\<close>, the recorded tumor BED is
  \<open>BED_calc0 d abt 1\<close> and the recorded OAR BED is \<open>BED_calc0 d abn sf\<close> for the sparing
  factor \<open>sf = sparing_factors[i + 1]\<close> observed in that session; the accumulated tumor and
  OAR BEDs carried into the next call are the previous ones plus these, hence not smaller.
\<close>

theorem whole_plan_five_records_accumulating:
  assumes "0 < abt" "0 < abn" "\<forall>s\<in>set sparing_factors. 0 < s" "6 \<le> length sparing_factors"
    and "\<not> (fixed_prob = 1 \<and> std_fixed = 0)"
    and "\<forall>k<5. fst (sparing_factor_bins
                  (belief_cdf S (take (k + 2) sparing_factors) alpha beta fixed_prob fixed_mean
                     std_fixed)) \<noteq> []"
    and "P = \<lparr> pa_sparing_factors = sparing_factors, pa_abt = abt, pa_abn = abn,
               pa_bound_OAR = bound_OAR, pa_bound_tumor = bound_tumor, pa_alpha = alpha,
               pa_beta = beta, pa_fixed_prob = fixed_prob, pa_fixed_mean = fixed_mean,
               pa_std_fixed = std_fixed \<rparr>"
  shows "\<exists>tumor_doses OAR_doses physical_doses.
       whole_plan S sparing_factors abt abn bound_OAR bound_tumor alpha beta fixed_prob
         fixed_mean std_fixed = Inr (tumor_doses, OAR_doses, physical_doses)
     \<and> length tumor_doses = 5 \<and> length OAR_doses = 5 \<and> length physical_doses = 5
     \<and> (\<forall>i<5. \<exists>before after t oar d.
            whole_plan_after S P i = Inr before \<and> whole_plan_after S P (Suc i) = Inr after
          \<and> carried_tumor_dose before = Some t \<and> carried_OAR_dose before = Some oar
          \<and> 0 \<le> d \<and> physical_doses ! i = Some d
          \<and> tumor_doses ! i = Some (BED_calc0 d abt 1)
          \<and> OAR_doses ! i = Some (BED_calc0 d abn (sparing_factors ! (i + 1)))
          \<and> carried_tumor_dose after = Some (BED_calc0 d abt 1 + t)
          \<and> carried_OAR_dose after = Some (BED_calc0 d abn (sparing_factors ! (i + 1)) + oar)
          \<and> t \<le> BED_calc0 d abt 1 + t
          \<and> oar \<le> BED_calc0 d abn (sparing_factors ! (i + 1)) + oar)"
proof -
  have f: "pa_sparing_factors P = sparing_factors" "pa_abt P = abt" "pa_abn P = abn"
      "pa_bound_OAR P = bound_OAR" "pa_bound_tumor P = bound_tumor" "pa_alpha P = alpha"
      "pa_beta P = beta" "pa_fixed_prob P = fixed_prob" "pa_fixed_mean P = fixed_mean"
      "pa_std_fixed P = std_fixed"
    by (simp_all add: assms(7))
  have h: "0 < pa_abt P" "0 < pa_abn P" "\<forall>s\<in>set (pa_sparing_factors P). 0 < s"
      "6 \<le> length (pa_sparing_factors P)" "\<not> (pa_fixed_prob P = 1 \<and> pa_std_fixed P = 0)"
      "\<forall>k<5. fst (sparing_factor_bins
                  (belief_cdf S (take (k + 2) (pa_sparing_factors P)) (pa_alpha P) (pa_beta P)
                     (pa_fixed_prob P) (pa_fixed_mean P) (pa_std_fixed P))) \<noteq> []"
    unfolding f using assms(1-6) by blast+
  have five: "(5::nat) \<le> 5" by simp
  from whole_plan_after_returns [OF h five]
  obtain st where st: "whole_plan_after S P 5 = Inr st" by blast
  note inv = whole_plan_after_invariant [OF h(1,2,3,4) five st, unfolded f]
  have wp: "whole_plan S sparing_factors abt abn bound_OAR bound_tumor alpha beta fixed_prob
         fixed_mean std_fixed = Inr (tumor_doses st, OAR_doses st, physical_doses st)"
    using st unfolding whole_plan_def whole_plan_after_def assms(7) by simp
  have mono: "\<exists>before after t oar d.
            whole_plan_after S P i = Inr before \<and> whole_plan_after S P (Suc i) = Inr after
          \<and> carried_tumor_dose before = Some t \<and> carried_OAR_dose before = Some oar
          \<and> 0 \<le> d \<and> physical_doses st ! i = Some d
          \<and> tumor_doses st ! i = Some (BED_calc0 d abt 1)
          \<and> OAR_doses st ! i = Some (BED_calc0 d abn (sparing_factors ! (i + 1)))
          \<and> carried_tumor_dose after = Some (BED_calc0 d abt 1 + t)
          \<and> carried_OAR_dose after = Some (BED_calc0 d abn (sparing_factors ! (i + 1)) + oar)
          \<and> t \<le> BED_calc0 d abt 1 + t
          \<and> oar \<le> BED_calc0 d abn (sparing_factors ! (i + 1)) + oar"
    if i: "i < 5" for i
  proof -
    from inv i obtain a b t oar d where r:
        "whole_plan_after S P i = Inr a" "whole_plan_after S P (Suc i) = Inr b"
        "carried_tumor_dose a = Some t" "carried_OAR_dose a = Some oar"
        "0 \<le> d" "physical_doses st ! i = Some d"
        "tumor_doses st ! i = Some (BED_calc0 d abt 1)"
        "OAR_doses st ! i = Some (BED_calc0 d abn (sparing_factors ! (i + 1)))"
        "carried_tumor_dose b = Some (BED_calc0 d abt 1 + t)"
        "carried_OAR_dose b = Some (BED_calc0 d abn (sparing_factors ! (i + 1)) + oar)"
      by blast
    have "sparing_factors ! (i + 1) \<in> set sparing_factors"
      using i assms(4) by simp
    then have sp: "0 < sparing_factors ! (i + 1)" using assms(3) by blast
    have "0 \<le> BED_calc0 d abt 1"
      using BED_calc0_nonneg [OF assms(1), of 1 d] r(5) by simp
    moreover have "0 \<le> BED_calc0 d abn (sparing_factors ! (i + 1))"
      using BED_calc0_nonneg [OF assms(2), of "sparing_factors ! (i + 1)" d] r(5) sp by simp
    ultimately have "t \<le> BED_calc0 d abt 1 + t
          \<and> oar \<le> BED_calc0 d abn (sparing_factors ! (i + 1)) + oar"
      by simp
    then show ?thesis using r by blast
  qed
  show ?thesis
    using wp inv mono by blast
qed

text \<open>The theorem on a course with the two-point belief: six sparing factors around \<open>1\<close>,
  \<open>abt = 10\<close>, \<open>abn = 3\<close>, bounds \<open>90\<close> and \<open>72\<close>, shown for the fifth session.\<close>

theorem whole_plan_five_records_accumulating_witness:
  "\<exists>tumor_doses OAR_doses physical_doses.
       whole_plan two_point_scipy [1, 9 / 10, 11 / 10, 19 / 20, 21 / 20, 1] 10 3 90 72 1 1 1 1
         (1 / 20) = Inr (tumor_doses, OAR_doses, physical_doses)
     \<and> length tumor_doses = 5 \<and> length OAR_doses = 5 \<and> length physical_doses = 5
     \<and> (\<exists>d. 0 \<le> d \<and> physical_doses ! 4 = Some d
          \<and> tumor_doses ! 4 = Some (BED_calc0 d 10 1)
          \<and> OAR_doses ! 4 = Some (BED_calc0 d 3 1))"
proof -
  define sfs :: "real list" where "sfs = [1, 9 / 10, 11 / 10, 19 / 20, 21 / 20, 1]"
  define P where "P = \<lparr> pa_sparing_factors = sfs, pa_abt = 10, pa_abn = 3,
               pa_bound_OAR = 90, pa_bound_tumor = 72, pa_alpha = 1,
               pa_beta = 1, pa_fixed_prob = 1, pa_fixed_mean = 1,
               pa_std_fixed = 1 / 20 \<rparr>"
  have h: "(0::real) < 10" "(0::real) < 3" "\<forall>s\<in>set sfs. 0 < s" "6 \<le> length sfs"
      "\<not> ((1::int) = 1 \<and> (1 / 20 :: real) = 0)"
    by (simp_all add: sfs_def)
  have b: "\<forall>k<5. fst (sparing_factor_bins
                  (belief_cdf two_point_scipy (take (k + 2) sfs) 1 1 1 1 (1 / 20))) \<noteq> []"
    using two_point_bins_nonempty by blast
  from whole_plan_five_records_accumulating [OF h b P_def]
  obtain tumor_doses OAR_doses physical_doses where r:
      "whole_plan two_point_scipy sfs 10 3 90 72 1 1 1 1 (1 / 20)
         = Inr (tumor_doses, OAR_doses, physical_doses)"
      "length tumor_doses = 5" "length OAR_doses = 5" "length physical_doses = 5"
      "\<forall>i<5. \<exists>before after t oar d.
            whole_plan_after two_point_scipy P i = Inr before
          \<and> whole_plan_after two_point_scipy P (Suc i) = Inr after
          \<and> carried_tumor_dose before = Some t \<and> carried_OAR_dose before = Some oar
          \<and> 0 \<le> d \<and> physical_doses ! i = Some d
          \<and> tumor_doses ! i = Some (BED_calc0 d 10 1)
          \<and> OAR_doses ! i = Some (BED_calc0 d 3 (sfs ! (i + 1)))
          \<and> carried_tumor_dose after = Some (BED_calc0 d 10 1 + t)
          \<and> carried_OAR_dose after = Some (BED_calc0 d 3 (sfs ! (i + 1)) + oar)
          \<and> t \<le> BED_calc0 d 10 1 + t
          \<and> oar \<le> BED_calc0 d 3 (sfs ! (i + 1)) + oar"
    by blast
  have "(4::nat) < 5" by simp
  with r(5) obtain d where d: "0 \<le> d" "physical_doses ! 4 = Some d"
      "tumor_doses ! 4 = Some (BED_calc0 d 10 1)"
      "OAR_doses ! 4 = Some (BED_calc0 d 3 (sfs ! (4 + 1)))"
    by blast
  have "sfs ! (4 + 1) = 1" by (simp add: sfs_def)
  then show ?thesis
    using r(1-4) d unfolding sfs_def by auto
qed

end
